theory Spec2Isabelle
  imports Complex_Main
begin

section \<open>Strings\<close>

text \<open>
  Titles are Python \<open>str\<close> values. They are modelled as \<open>string\<close> with the character
  classes of the regular expressions restricted to ASCII: \<open>\s\<close> is what \<open>str.isspace\<close>
  accepts below 128 (tab, line feed, vertical tab, form feed, carriage return, the four
  separators 0x1C..0x1F and the blank), \<open>\d\<close> is \<open>0..9\<close>, \<open>\w\<close> is a letter, a digit or
  the underscore, and \<open>str.lower\<close> maps \<open>A..Z\<close> to \<open>a..z\<close>.
\<close>

definition is_space :: "char \<Rightarrow> bool" where
  "is_space c = (c \<in> set [CHR 0x09, CHR 0x0A, CHR 0x0B, CHR 0x0C, CHR 0x0D,
                            CHR 0x1C, CHR 0x1D, CHR 0x1E, CHR 0x1F, CHR '' ''])"

definition is_digit :: "char \<Rightarrow> bool" where
  "is_digit c = (c \<in> set ''0123456789'')"

definition is_word :: "char \<Rightarrow> bool" where
  "is_word c = (c \<in> set (''abcdefghijklmnopqrstuvwxyz'' @ ''ABCDEFGHIJKLMNOPQRSTUVWXYZ''
                            @ ''0123456789'' @ ''_''))"

definition lower_table :: "(char \<times> char) list" where
  "lower_table = zip ''ABCDEFGHIJKLMNOPQRSTUVWXYZ'' ''abcdefghijklmnopqrstuvwxyz''"

definition lower_char :: "char \<Rightarrow> char" where
  "lower_char c = (case map_of lower_table c of Some d \<Rightarrow> d | None \<Rightarrow> c)"

text \<open>\<open>s.lower()\<close>\<close>

definition lower :: "string \<Rightarrow> string" where
  "lower s = map lower_char s"

text \<open>\<open>s.strip()\<close>\<close>

definition strip :: "string \<Rightarrow> string" where
  "strip s = rev (dropWhile is_space (rev (dropWhile is_space s)))"

text \<open>\<open>s.split()\<close>: the maximal runs of characters that are not white space. The first
  argument is the word being read.\<close>

fun split_from :: "string \<Rightarrow> string \<Rightarrow> string list" where
  "split_from cur [] = (if cur = [] then [] else [cur])"
| "split_from cur (c # cs) =
     (if is_space c then (if cur = [] then split_from [] cs else cur # split_from [] cs)
      else split_from (cur @ [c]) cs)"

definition split_ws :: "string \<Rightarrow> string list" where
  "split_ws s = split_from [] s"

text \<open>\<open>' '.join(ws)\<close>\<close>

fun join_sp :: "string list \<Rightarrow> string" where
  "join_sp [] = []"
| "join_sp [w] = w"
| "join_sp (w # v # ws) = w @ CHR '' '' # join_sp (v # ws)"

text \<open>\<open>a in b\<close> on strings: \<open>a\<close> occurs in \<open>b\<close> as a contiguous block.\<close>

fun contains :: "string \<Rightarrow> string \<Rightarrow> bool" where
  "contains a [] = (a = [])"
| "contains a (c # cs) = (take (length a) (c # cs) = a \<or> contains a cs)"

section \<open>Title normalisation\<close>

text \<open>
  One attempt of \<open>\s*\(\d{4}\)\s*\<close> at the head of a string: the rest of the string after
  the match, or \<open>None\<close>. Both \<open>\s*\<close> are greedy, and giving white space back never helps,
  since the character after the run is not white space.
\<close>

definition year_match :: "string \<Rightarrow> string option" where
  "year_match s =
     (case dropWhile is_space s of
        a # d1 # d2 # d3 # d4 # b # rest \<Rightarrow>
          (if a = CHR ''('' \<and> is_digit d1 \<and> is_digit d2 \<and> is_digit d3 \<and> is_digit d4
              \<and> b = CHR '')''
           then Some (dropWhile is_space rest) else None)
      | _ \<Rightarrow> None)"

lemma length_dropWhile_le_Suc: "length (dropWhile P xs) < Suc (length xs)"
  by (simp add: length_dropWhile_le less_Suc_eq_le)

lemma year_match_shorter:
  assumes "year_match s = Some r"
  shows "length r < length s"
proof -
  obtain a d1 d2 d3 d4 b rest where
    d: "dropWhile is_space s = a # d1 # d2 # d3 # d4 # b # rest" and r: "r = dropWhile is_space rest"
    using assms
    by (auto simp: year_match_def split: list.splits if_splits)
  have "length r \<le> length rest"
    unfolding r by (rule length_dropWhile_le)
  moreover have "length (dropWhile is_space s) \<le> length s"
    by (rule length_dropWhile_le)
  ultimately show ?thesis using d by simp
qed

text \<open>\<open>re.sub(r'\s*\(\d{4}\)\s*', '', title)\<close>: every leftmost match is deleted, the scan
  going on after the match.\<close>

function remove_years :: "string \<Rightarrow> string" where
  "remove_years [] = []"
| "remove_years (c # cs) =
     (case year_match (c # cs) of
        Some r \<Rightarrow> remove_years r
      | None \<Rightarrow> c # remove_years cs)"
  by pat_completeness auto
termination
proof (relation "measure length")
  show "wf (measure length)" by simp
next
  fix c cs r
  assume "year_match (c # cs) = Some r"
  then have "length r < length (c # cs)"
    by (rule year_match_shorter)
  then show "(r, c # cs) \<in> measure length" by simp
next
  fix c cs
  show "(cs, c # cs) \<in> measure length" by simp
qed

text \<open>\<open>^p\s+\<close> for a fixed word \<open>p\<close>: the rest of the string after the match.\<close>

definition strip_prefix_ws :: "string \<Rightarrow> string \<Rightarrow> string option" where
  "strip_prefix_ws p s =
     (if take (length p) s = p then
        (case drop (length p) s of
           [] \<Rightarrow> None
         | c # cs \<Rightarrow> if is_space c then Some (dropWhile is_space cs) else None)
      else None)"

text \<open>\<open>re.sub(r'^(the|a|an)\s+', '', title)\<close>: the alternatives are tried in their order.\<close>

definition remove_article :: "string \<Rightarrow> string" where
  "remove_article s =
     (case strip_prefix_ws ''the'' s of Some r \<Rightarrow> r
      | None \<Rightarrow> (case strip_prefix_ws ''a'' s of Some r \<Rightarrow> r
      | None \<Rightarrow> (case strip_prefix_ws ''an'' s of Some r \<Rightarrow> r
      | None \<Rightarrow> s)))"

text \<open>\<open>re.sub(r'^marvel\'?s\s+', '', title)\<close>: with the apostrophe first, then without.\<close>

definition remove_marvel :: "string \<Rightarrow> string" where
  "remove_marvel s =
     (case strip_prefix_ws (''marvel'' @ [CHR 0x27] @ ''s'') s of Some r \<Rightarrow> r
      | None \<Rightarrow> (case strip_prefix_ws ''marvels'' s of Some r \<Rightarrow> r
      | None \<Rightarrow> s))"

definition normalize_title :: "string \<Rightarrow> string" where
  "normalize_title title =
     join_sp (split_ws (remove_marvel (remove_article
       (filter (\<lambda>c. is_word c \<or> is_space c) (remove_years (lower title))))))"

lemmas char_class_defs = is_space_def is_digit_def is_word_def lower_char_def lower_table_def

lemmas normalize_defs = normalize_title_def lower_def split_ws_def remove_article_def
  remove_marvel_def strip_prefix_ws_def year_match_def char_class_defs

section \<open>Data model\<close>

text \<open>
  The values of an identifier dictionary (\<open>ids\<close> of a Trakt entry): a JSON string, a
  JSON number or \<open>null\<close>. A dictionary is an association list, read by \<open>dict.get\<close>.
\<close>

datatype idval = IdStr string | IdInt int | IdNull

type_synonym ids = "(string \<times> idval) list"

text \<open>\<open>d.get(k)\<close>: Python's \<open>None\<close> for a missing key and for a \<open>null\<close> value.\<close>

definition get_id :: "ids \<Rightarrow> string \<Rightarrow> idval option" where
  "get_id d k = (case map_of d k of Some IdNull \<Rightarrow> None | r \<Rightarrow> r)"

text \<open>Truth values of Python objects: \<open>None\<close>, \<open>0\<close> and the empty string are false.\<close>

fun truthy_id :: "idval option \<Rightarrow> bool" where
  "truthy_id None = False"
| "truthy_id (Some (IdStr s)) = (s \<noteq> [])"
| "truthy_id (Some (IdInt n)) = (n \<noteq> 0)"
| "truthy_id (Some IdNull) = False"

fun truthy_str :: "string option \<Rightarrow> bool" where
  "truthy_str None = False"
| "truthy_str (Some s) = (s \<noteq> [])"

fun truthy_int :: "int option \<Rightarrow> bool" where
  "truthy_int None = False"
| "truthy_int (Some n) = (n \<noteq> 0)"

text \<open>\<open>str(n)\<close> for integers, and \<open>str(v)\<close> for the values of a dictionary.\<close>

definition digit_char :: "nat \<Rightarrow> char" where
  "digit_char d = ''0123456789'' ! d"

fun show_nat :: "nat \<Rightarrow> string" where
  "show_nat n = (if n < 10 then [digit_char n] else show_nat (n div 10) @ [digit_char (n mod 10)])"

declare show_nat.simps [simp del]

definition show_int :: "int \<Rightarrow> string" where
  "show_int i = (if i < 0 then CHR ''-'' # show_nat (nat (- i)) else show_nat (nat i))"

fun py_str :: "idval \<Rightarrow> string" where
  "py_str (IdStr s) = s"
| "py_str (IdInt n) = show_int n"
| "py_str IdNull = ''None''"

definition str_opt :: "string option \<Rightarrow> string" where
  "str_opt v = (case v of None \<Rightarrow> ''None'' | Some s \<Rightarrow> s)"

text \<open>An item of the Emby library, as the \<open>/Items\<close> endpoint returns it. \<open>item_Id\<close> and
  \<open>item_ProductionYear\<close> are \<open>None\<close> when the key is missing; a missing \<open>Name\<close> or \<open>Path\<close>
  reads as the empty string and a missing \<open>ProviderIds\<close> as the empty dictionary, the
  defaults of the \<open>get\<close> calls.\<close>

record lib_item =
  item_Id :: "string option"
  item_Name :: string
  item_ProductionYear :: "int option"
  item_ProviderIds :: "(string \<times> string) list"
  item_Path :: string

text \<open>\<open>provider_ids.get(k, '')\<close>\<close>

definition get_str :: "(string \<times> string) list \<Rightarrow> string \<Rightarrow> string" where
  "get_str d k = (case map_of d k of Some v \<Rightarrow> v | None \<Rightarrow> [])"

text \<open>A record of the Mapping Store, the value under the key \<open>{type}_{trakt id}\<close>.\<close>

record mapping =
  map_emby_id :: "string option"
  map_type :: string
  map_title :: string
  map_last_updated :: string

text \<open>One membership of an unresolved record: \<open>{'name': ..., 'library_id': ...}\<close>.\<close>

record collection_info =
  coll_name :: "string option"
  coll_library_id :: "string option"

text \<open>A record of the Unresolved and of the Ignored registry. The optional fields are the
  keys a dictionary may lack: \<open>collections\<close> (missing in the legacy shape),
  \<open>collection_name\<close> and \<open>library_id\<close> (the legacy shape only), \<open>ignored_on\<close> and
  \<open>trakt_ids\<close> (read by \<open>recheck_missing_item\<close>, written by no function).\<close>

record missing_item =
  mi_title :: string
  mi_year :: "int option"
  mi_ids :: ids
  mi_type :: string
  mi_reason :: string
  mi_last_checked :: string
  mi_collections :: "collection_info list option"
  mi_collection_name :: "string option"
  mi_library_id :: "string option"
  mi_ignored_on :: "string option"
  mi_trakt_ids :: "ids option"

text \<open>The \<open>movie\<close> or \<open>show\<close> object of a Trakt list item, and the list item.\<close>

record media =
  md_title :: "string option"
  md_year :: "int option"
  md_ids :: ids

record trakt_item =
  ti_type :: string
  ti_movie :: "media option"
  ti_show :: "media option"

section \<open>The Emby server and the process state\<close>

text \<open>
  The requests the program sends to the Emby server, without the server address and
  the API key:
  \<^item> \<open>GET /Items\<close> with \<open>IncludeItemTypes\<close> and \<open>ParentId\<close> (the items of a library),
  \<^item> \<open>GET /Items\<close> with \<open>IncludeItemTypes=BoxSet\<close> (the collections),
  \<^item> \<open>GET /Items/{id}\<close>,
  \<^item> \<open>POST /Collections?Name=..&Ids=..\<close>,
  \<^item> \<open>POST /Items/{id}/Collection?Name=..\<close>,
  \<^item> \<open>POST /Collections/{collection id}/Items?Ids=..\<close>.
\<close>

datatype request =
    GetLibraryItems string string
  | GetBoxSets
  | GetItem string
  | PostCollections string "string list"
  | PostItemCollection string string
  | PostCollectionItems string string

text \<open>A response body: not JSON (\<open>response.json()\<close> raises), or an object with its
  \<open>Items\<close> and \<open>Id\<close> members where present. A request ends in an exception or in a
  response with a status code.\<close>

datatype body = NotJson | Json "lib_item list option" "string option"

datatype response = Raised | Response int body

datatype py_error = AttributeError

text \<open>
  The environment of a run: the configuration read by the \<open>get_EMBY_...\<close> functions
  (\<open>None\<close> when unset), the server as a function from the requests sent so far and the
  next request to its response, and the clock behind \<open>datetime.now().isoformat()\<close>.
\<close>

record env =
  EMBY_SERVER :: "string option"
  EMBY_MOVIES_LIBRARY_ID :: "string option"
  EMBY_TV_LIBRARY_ID :: "string option"
  respond :: "request list \<Rightarrow> request \<Rightarrow> response"
  time_at :: "nat \<Rightarrow> string"

text \<open>The module's global variables, with the requests sent so far and the number of
  clock readings taken. Writing the JSON files is not modelled: a failed write is
  caught and changes nothing in memory.\<close>

record state =
  emby_id_mapping :: "string \<rightharpoonup> mapping"
  library_cache :: "string \<rightharpoonup> lib_item list"
  missing_items :: "missing_item list"
  ignored_items :: "missing_item list"
  requests_sent :: "request list"
  clock :: nat

definition datetime_now :: "env \<Rightarrow> state \<Rightarrow> string \<times> state" where
  "datetime_now e s = (time_at e (clock s), s\<lparr>clock := Suc (clock s)\<rparr>)"

definition http :: "env \<Rightarrow> request \<Rightarrow> state \<Rightarrow> response \<times> state" where
  "http e req s = (respond e (requests_sent s) req, s\<lparr>requests_sent := requests_sent s @ [req]\<rparr>)"

definition status_ok :: "int \<Rightarrow> bool" where
  "status_ok st = (st = 200 \<or> st = 201 \<or> st = 204)"

section \<open>Mapping Store\<close>

text \<open>The key \<open>f"{item_type}_{trakt_id}"\<close>; the Trakt id is passed as \<open>str\<close> formats it.\<close>

definition mapping_key :: "string \<Rightarrow> string \<Rightarrow> string" where
  "mapping_key item_type trakt_id = item_type @ ''_'' @ trakt_id"

definition add_emby_id_mapping ::
  "env \<Rightarrow> string \<Rightarrow> string option \<Rightarrow> string \<Rightarrow> string \<Rightarrow> state \<Rightarrow> state" where
  "add_emby_id_mapping e trakt_id emby_id item_type title s =
     (let (now, s1) = datetime_now e s
      in s1\<lparr>emby_id_mapping := (emby_id_mapping s1)(mapping_key item_type trakt_id \<mapsto>
              \<lparr>map_emby_id = emby_id, map_type = item_type, map_title = title,
               map_last_updated = now\<rparr>)\<rparr>)"

definition get_emby_id_from_mapping :: "state \<Rightarrow> string \<Rightarrow> string \<Rightarrow> string option" where
  "get_emby_id_from_mapping s item_type trakt_id =
     (case emby_id_mapping s (mapping_key item_type trakt_id) of
        Some m \<Rightarrow> map_emby_id m
      | None \<Rightarrow> None)"

section \<open>Unresolved and Ignored registries\<close>

text \<open>\<open>del xs[i]\<close> for an index in range.\<close>

definition delete_at :: "nat \<Rightarrow> 'a list \<Rightarrow> 'a list" where
  "delete_at i xs = take i xs @ drop (Suc i) xs"

definition ignore_missing_item :: "env \<Rightarrow> int \<Rightarrow> state \<Rightarrow> bool \<times> state" where
  "ignore_missing_item e item_index s =
     (if item_index < 0 \<or> item_index \<ge> int (length (missing_items s)) then (False, s)
      else
        let i = nat item_index;
            (now, s1) = datetime_now e s;
            item = (missing_items s1 ! i)\<lparr>mi_ignored_on := Some now\<rparr>
        in (True, s1\<lparr>ignored_items := ignored_items s1 @ [item],
                     missing_items := delete_at i (missing_items s1)\<rparr>))"

definition unignore_item :: "env \<Rightarrow> int \<Rightarrow> state \<Rightarrow> bool \<times> state" where
  "unignore_item e item_index s =
     (if item_index < 0 \<or> item_index \<ge> int (length (ignored_items s)) then (False, s)
      else
        let i = nat item_index;
            (now, s1) = datetime_now e s;
            item = (ignored_items s1 ! i)\<lparr>mi_ignored_on := None, mi_last_checked := now\<rparr>
        in (True, s1\<lparr>missing_items := missing_items s1 @ [item],
                     ignored_items := delete_at i (ignored_items s1)\<rparr>))"

text \<open>The loop of \<open>ignore_missing_items\<close> over the sorted indices, counting the records
  moved.\<close>

fun ignore_loop :: "env \<Rightarrow> int list \<Rightarrow> nat \<Rightarrow> state \<Rightarrow> nat \<times> state" where
  "ignore_loop e [] success_count s = (success_count, s)"
| "ignore_loop e (index # rest) success_count s =
     (if index < 0 \<or> index \<ge> int (length (missing_items s)) then ignore_loop e rest success_count s
      else
        let i = nat index;
            (now, s1) = datetime_now e s;
            item = (missing_items s1 ! i)\<lparr>mi_ignored_on := Some now\<rparr>
        in ignore_loop e rest (Suc success_count)
             (s1\<lparr>ignored_items := ignored_items s1 @ [item],
                 missing_items := delete_at i (missing_items s1)\<rparr>))"

definition ignore_missing_items :: "env \<Rightarrow> int list \<Rightarrow> state \<Rightarrow> bool \<times> state" where
  "ignore_missing_items e item_indices s =
     (if item_indices = [] then (False, s)
      else
        let sorted_indices = rev (sort item_indices);
            (success_count, s1) = ignore_loop e sorted_indices 0 s
        in (success_count > 0, s1))"

text \<open>Whether a membership list names the collection.\<close>

definition collection_exists :: "string option \<Rightarrow> collection_info list \<Rightarrow> bool" where
  "collection_exists collection_name colls = (\<exists>c \<in> set colls. coll_name c = collection_name)"

text \<open>The branch of \<open>add_to_missing_items\<close> for an ignored record of the same Trakt id:
  the membership list is created where missing, and the collection appended to it
  unless a membership of that name is there.\<close>

definition merge_into_ignored ::
  "string option \<Rightarrow> string option \<Rightarrow> missing_item \<Rightarrow> missing_item" where
  "merge_into_ignored collection_name library_id ignored_item =
     (let colls = (case mi_collections ignored_item of None \<Rightarrow> [] | Some cs \<Rightarrow> cs)
      in if collection_exists collection_name colls
         then ignored_item\<lparr>mi_collections := Some colls\<rparr>
         else ignored_item\<lparr>mi_collections :=
                Some (colls @ [\<lparr>coll_name = collection_name, coll_library_id = library_id\<rparr>])\<rparr>)"

text \<open>The first loop of \<open>add_to_missing_items\<close>: the ignored list with the first record
  of the same Trakt id updated, or \<open>None\<close> when no record has that id.\<close>

fun update_ignored ::
  "idval option \<Rightarrow> string option \<Rightarrow> string option \<Rightarrow> missing_item list
     \<Rightarrow> missing_item list option" where
  "update_ignored trakt_id collection_name library_id [] = None"
| "update_ignored trakt_id collection_name library_id (ignored_item # rest) =
     (let ignored_trakt_id = get_id (mi_ids ignored_item) ''trakt''
      in if truthy_id ignored_trakt_id \<and> ignored_trakt_id = trakt_id
         then Some (merge_into_ignored collection_name library_id ignored_item # rest)
         else map_option ((#) ignored_item) (update_ignored trakt_id collection_name library_id rest))"

text \<open>The second loop: the index of the first unresolved record of the same Trakt id.\<close>

fun find_existing :: "idval option \<Rightarrow> missing_item list \<Rightarrow> nat option" where
  "find_existing trakt_id [] = None"
| "find_existing trakt_id (item # rest) =
     (let item_trakt_id = get_id (mi_ids item) ''trakt''
      in if truthy_id trakt_id \<and> truthy_id item_trakt_id \<and> trakt_id = item_trakt_id then Some 0
         else map_option Suc (find_existing trakt_id rest))"

text \<open>The update of an unresolved record that is already there: the legacy shape is
  migrated, the collection appended unless named already, \<open>last_checked\<close> refreshed.\<close>

definition merge_into_existing ::
  "string option \<Rightarrow> string option \<Rightarrow> string \<Rightarrow> missing_item \<Rightarrow> missing_item" where
  "merge_into_existing collection_name library_id now existing_item =
     (let colls = (case mi_collections existing_item of
                     Some cs \<Rightarrow> cs
                   | None \<Rightarrow> (case mi_collection_name existing_item of
                                 Some n \<Rightarrow> [\<lparr>coll_name = Some n,
                                            coll_library_id = mi_library_id existing_item\<rparr>]
                               | None \<Rightarrow> []));
          colls1 = (if collection_exists collection_name colls then colls
                    else colls @ [\<lparr>coll_name = collection_name, coll_library_id = library_id\<rparr>])
      in existing_item\<lparr>mi_collections := Some colls1, mi_last_checked := now\<rparr>)"

definition add_to_missing_items ::
  "env \<Rightarrow> media \<Rightarrow> string \<Rightarrow> string option \<Rightarrow> string option \<Rightarrow> string \<Rightarrow> state
     \<Rightarrow> bool \<times> state" where
  "add_to_missing_items e item_data item_type collection_name library_id reason s =
     (let trakt_id = get_id (md_ids item_data) ''trakt'';
          title = (case md_title item_data of None \<Rightarrow> ''Unknown'' | Some t \<Rightarrow> t)
      in case update_ignored trakt_id collection_name library_id (ignored_items s) of
           Some ignored \<Rightarrow> (False, s\<lparr>ignored_items := ignored\<rparr>)
         | None \<Rightarrow>
             let existing_index = find_existing trakt_id (missing_items s);
                 (now, s1) = datetime_now e s;
                 item_to_add = \<lparr>mi_title = title, mi_year = md_year item_data,
                                mi_ids = md_ids item_data, mi_type = item_type,
                                mi_reason = reason, mi_last_checked = now,
                                mi_collections = Some [\<lparr>coll_name = collection_name,
                                                         coll_library_id = library_id\<rparr>],
                                mi_collection_name = None, mi_library_id = None,
                                mi_ignored_on = None, mi_trakt_ids = None\<rparr>
             in case existing_index of
                  Some i \<Rightarrow>
                    let (now2, s2) = datetime_now e s1
                    in (True, s2\<lparr>missing_items := (missing_items s2)
                                  [i := merge_into_existing collection_name library_id now2
                                          (missing_items s2 ! i)]\<rparr>)
                | None \<Rightarrow> (True, s1\<lparr>missing_items := missing_items s1 @ [item_to_add]\<rparr>))"

section \<open>Library Index\<close>

definition get_emby_library_items ::
  "env \<Rightarrow> string \<Rightarrow> string option \<Rightarrow> bool \<Rightarrow> state \<Rightarrow> (py_error + lib_item list) \<times> state" where
  "get_emby_library_items e item_type library_id force_refresh s =
     (let cache_key = item_type @ ''_'' @ str_opt library_id
      in case (if force_refresh then None else library_cache s cache_key) of
           Some items \<Rightarrow> (Inr items, s)
         | None \<Rightarrow>
             let library_id1 =
                   (if truthy_str library_id then library_id
                    else if item_type = ''Movie'' then EMBY_MOVIES_LIBRARY_ID e
                    else if item_type = ''Series'' then EMBY_TV_LIBRARY_ID e
                    else library_id)
             in case library_id1 of
                  None \<Rightarrow> (Inr [], s)
                | Some lid \<Rightarrow>
                    if lid = [] then (Inr [], s)
                    else case EMBY_SERVER e of
                      None \<Rightarrow> (Inl AttributeError, s)
                    | Some server \<Rightarrow>
                        (case http e (GetLibraryItems item_type lid) s of
                           (Raised, s1) \<Rightarrow> (Inr [], s1)
                         | (Response st b, s1) \<Rightarrow>
                             if st = 200 then
                               (case b of
                                  NotJson \<Rightarrow> (Inr [], s1)
                                | Json items_member id_member \<Rightarrow>
                                    let items = (case items_member of None \<Rightarrow> [] | Some i \<Rightarrow> i)
                                    in (Inr items,
                                        s1\<lparr>library_cache := (library_cache s1)(cache_key \<mapsto> items)\<rparr>))
                             else (Inr [], s1)))"

text \<open>\<open>re.search(r'\[imdbid-(tt\d+)\]', path)\<close>: one attempt at the head of the string,
  and the leftmost match.\<close>

definition imdb_tag_at :: "string \<Rightarrow> string option" where
  "imdb_tag_at s =
     (if take 10 s = ''[imdbid-tt'' then
        let digits = takeWhile is_digit (drop 10 s);
            rest = dropWhile is_digit (drop 10 s)
        in if digits \<noteq> [] \<and> take 1 rest = '']'' then Some (''tt'' @ digits) else None
      else None)"

fun imdb_search :: "string \<Rightarrow> string option" where
  "imdb_search [] = None"
| "imdb_search (c # cs) =
     (case imdb_tag_at (c # cs) of Some r \<Rightarrow> Some r | None \<Rightarrow> imdb_search cs)"

definition extract_imdb_from_path :: "string \<Rightarrow> string option" where
  "extract_imdb_from_path path =
     (if path = [] \<or> \<not> contains ''[imdbid-'' path then None else imdb_search path)"

section \<open>Searching the library for one entry\<close>

text \<open>The loop over the library for one provider key (\<open>Tvdb\<close>, \<open>Tmdb\<close>): the first item
  whose stripped id is not empty and equals the entry's id. The entry's id is compared
  as it is, so a number never equals the string of the library.\<close>

fun find_by_provider :: "string \<Rightarrow> idval \<Rightarrow> lib_item list \<Rightarrow> lib_item option" where
  "find_by_provider key wanted [] = None"
| "find_by_provider key wanted (item # rest) =
     (let emby_value = strip (get_str (item_ProviderIds item) key)
      in if emby_value \<noteq> [] \<and> IdStr emby_value = wanted then Some item
         else find_by_provider key wanted rest)"

text \<open>The IMDB loop: for each item, the \<open>Imdb\<close> provider id first, then the id in the
  file path.\<close>

definition path_imdb_matches :: "idval \<Rightarrow> lib_item \<Rightarrow> bool" where
  "path_imdb_matches imdb_id item =
     (item_Path item \<noteq> [] \<and>
      (case extract_imdb_from_path (item_Path item) of
         Some p \<Rightarrow> p \<noteq> [] \<and> IdStr p = imdb_id
       | None \<Rightarrow> False))"

fun find_by_imdb :: "idval \<Rightarrow> lib_item list \<Rightarrow> lib_item option" where
  "find_by_imdb imdb_id [] = None"
| "find_by_imdb imdb_id (item # rest) =
     (let emby_imdb_id = strip (get_str (item_ProviderIds item) ''Imdb'')
      in if emby_imdb_id \<noteq> [] \<and> IdStr emby_imdb_id = imdb_id then Some item
         else if path_imdb_matches imdb_id item then Some item
         else find_by_imdb imdb_id rest)"

text \<open>
  The fuzzy title loop, the same text in \<open>search_movie_in_emby\<close> and in
  \<open>search_tv_show_in_emby\<close>. The state of the loop is \<open>(best_match, best_score)\<close>. The
  scores are modelled as rationals: \<open>0.9\<close>, \<open>0.6\<close> and a quotient of two word counts
  compare as floats the way they compare as fractions, for titles of any real length.
\<close>

definition year_too_far :: "int option \<Rightarrow> int option \<Rightarrow> bool" where
  "year_too_far year item_year =
     (case (year, item_year) of
        (Some y, Some iy) \<Rightarrow> y \<noteq> 0 \<and> iy \<noteq> 0 \<and> \<bar>y - iy\<bar> > 1
      | _ \<Rightarrow> False)"

definition overlap_score :: "string list \<Rightarrow> string list \<Rightarrow> rat" where
  "overlap_score title_words item_words =
     of_nat (length (filter (\<lambda>w. w \<in> set item_words) title_words))
       / of_nat (max (length title_words) (length item_words))"

fun fuzzy_loop ::
  "string \<Rightarrow> int option \<Rightarrow> lib_item list \<Rightarrow> lib_item option \<times> rat \<Rightarrow> lib_item option \<times> rat" where
  "fuzzy_loop normalized_title year [] best = best"
| "fuzzy_loop normalized_title year (item # rest) (best_match, best_score) =
     (if year_too_far year (item_ProductionYear item)
      then fuzzy_loop normalized_title year rest (best_match, best_score)
      else
        let normalized_item_title = normalize_title (item_Name item)
        in if normalized_title = normalized_item_title then (Some item, 1)
           else
             let (best_match1, best_score1) =
                   (if contains normalized_title normalized_item_title
                       \<or> contains normalized_item_title normalized_title
                    then (if best_match = None \<or> 9 / 10 > best_score
                          then (Some item, 9 / 10) else (best_match, best_score))
                    else (best_match, best_score));
                 title_words = remdups (split_ws normalized_title);
                 item_words = remdups (split_ws normalized_item_title)
             in if title_words \<noteq> [] \<and> item_words \<noteq> []
                   \<and> overlap_score title_words item_words > 6 / 10
                   \<and> overlap_score title_words item_words > best_score1
                then fuzzy_loop normalized_title year rest
                       (Some item, overlap_score title_words item_words)
                else fuzzy_loop normalized_title year rest (best_match1, best_score1))"

text \<open>The fuzzy fallback as a whole: the item accepted by title, if any.\<close>

definition fuzzy_title_match :: "string \<Rightarrow> int option \<Rightarrow> lib_item list \<Rightarrow> lib_item option" where
  "fuzzy_title_match title year library_items =
     (case fuzzy_loop (normalize_title title) year library_items (None, 0) of
        (best_match, best_score) \<Rightarrow>
          if best_match \<noteq> None \<and> best_score \<ge> 6 / 10 then best_match else None)"

text \<open>A hit of any step: the mapping is stored when the entry has a Trakt id, and the
  item's \<open>Id\<close> returned.\<close>

definition return_match ::
  "env \<Rightarrow> idval option \<Rightarrow> string \<Rightarrow> string \<Rightarrow> lib_item \<Rightarrow> state
     \<Rightarrow> (py_error + string option) \<times> state" where
  "return_match e trakt_id item_type title item s =
     (case trakt_id of
        Some t \<Rightarrow> (Inr (item_Id item),
                   add_emby_id_mapping e (py_str t) (item_Id item) item_type title s)
      | None \<Rightarrow> (Inr (item_Id item), s))"

text \<open>\<open>if provider_ids.get(k): ...\<close>: a step that runs on the value under a key when
  that value is true, and finds nothing otherwise.\<close>

definition when_truthy :: "idval option \<Rightarrow> (idval \<Rightarrow> 'a option) \<Rightarrow> 'a option" where
  "when_truthy v f = (case v of None \<Rightarrow> None | Some x \<Rightarrow> if truthy_id (Some x) then f x else None)"

text \<open>The stored mapping for the entry's Trakt id, when it has one and the stored Emby id
  is not empty.\<close>

definition stored_mapping :: "state \<Rightarrow> string \<Rightarrow> idval option \<Rightarrow> string option" where
  "stored_mapping s item_type trakt =
     when_truthy trakt (\<lambda>t.
       if truthy_str (get_emby_id_from_mapping s item_type (py_str t))
       then get_emby_id_from_mapping s item_type (py_str t) else None)"

definition search_movie_in_emby ::
  "env \<Rightarrow> string \<Rightarrow> int option \<Rightarrow> ids \<Rightarrow> string option \<Rightarrow> state
     \<Rightarrow> (py_error + string option) \<times> state" where
  "search_movie_in_emby e title year provider_ids library_id s =
     (if provider_ids = [] then (Inr None, s)
      else
        let trakt = get_id provider_ids ''trakt'';
            trakt_id = (if truthy_id trakt then trakt else None)
        in case stored_mapping s ''movie'' trakt of
             Some emby_id \<Rightarrow> (Inr (Some emby_id), s)
           | None \<Rightarrow>
               (case get_emby_library_items e ''Movie'' library_id False s of
                  (Inl err, s1) \<Rightarrow> (Inl err, s1)
                | (Inr library_items, s1) \<Rightarrow>
                    (case when_truthy (get_id provider_ids ''imdb'')
                            (\<lambda>imdb_id. find_by_imdb imdb_id library_items) of
                       Some item \<Rightarrow> return_match e trakt_id ''movie'' title item s1
                     | None \<Rightarrow>
                    (case when_truthy (get_id provider_ids ''tmdb'')
                            (\<lambda>tmdb_id. find_by_provider ''Tmdb'' tmdb_id library_items) of
                       Some item \<Rightarrow> return_match e trakt_id ''movie'' title item s1
                     | None \<Rightarrow>
                    (case fuzzy_title_match title year library_items of
                       Some item \<Rightarrow> return_match e trakt_id ''movie'' title item s1
                     | None \<Rightarrow> (Inr None, s1))))))"

definition search_tv_show_in_emby ::
  "env \<Rightarrow> string \<Rightarrow> int option \<Rightarrow> ids \<Rightarrow> string option \<Rightarrow> state
     \<Rightarrow> (py_error + string option) \<times> state" where
  "search_tv_show_in_emby e title year provider_ids library_id s =
     (if provider_ids = [] then (Inr None, s)
      else
        let trakt = get_id provider_ids ''trakt'';
            trakt_id = (if truthy_id trakt then trakt else None)
        in case stored_mapping s ''show'' trakt of
             Some emby_id \<Rightarrow> (Inr (Some emby_id), s)
           | None \<Rightarrow>
               (case get_emby_library_items e ''Series'' library_id False s of
                  (Inl err, s1) \<Rightarrow> (Inl err, s1)
                | (Inr library_items, s1) \<Rightarrow>
                    (case when_truthy (get_id provider_ids ''tvdb'')
                            (\<lambda>tvdb_id. find_by_provider ''Tvdb'' tvdb_id library_items) of
                       Some item \<Rightarrow> return_match e trakt_id ''show'' title item s1
                     | None \<Rightarrow>
                    (case when_truthy (get_id provider_ids ''tmdb'')
                            (\<lambda>tmdb_id. find_by_provider ''Tmdb'' tmdb_id library_items) of
                       Some item \<Rightarrow> return_match e trakt_id ''show'' title item s1
                     | None \<Rightarrow>
                    (case when_truthy (get_id provider_ids ''imdb'')
                            (\<lambda>imdb_id. find_by_imdb imdb_id library_items) of
                       Some item \<Rightarrow> return_match e trakt_id ''show'' title item s1
                     | None \<Rightarrow>
                    (case fuzzy_title_match title year library_items of
                       Some item \<Rightarrow> return_match e trakt_id ''show'' title item s1
                     | None \<Rightarrow> (Inr None, s1)))))))"

section \<open>Resolving one list entry\<close>

text \<open>The four lookup tables of \<open>process_item\<close>, from an external id to the \<open>Id\<close> of a
  library item (\<open>None\<close> when the item has no \<open>Id\<close>). A later item overwrites an earlier one
  under the same key.\<close>

record lookups =
  imdb_lookup :: "string \<rightharpoonup> string option"
  tmdb_lookup :: "string \<rightharpoonup> string option"
  tvdb_lookup :: "string \<rightharpoonup> string option"
  path_imdb_lookup :: "string \<rightharpoonup> string option"

definition empty_lookups :: lookups where
  "empty_lookups = \<lparr>imdb_lookup = Map.empty, tmdb_lookup = Map.empty,
                     tvdb_lookup = Map.empty, path_imdb_lookup = Map.empty\<rparr>"

definition add_imdb :: "string \<Rightarrow> string option \<Rightarrow> (string \<rightharpoonup> string option) \<Rightarrow> (string \<rightharpoonup> string option)" where
  "add_imdb emby_imdb_id lib_id m =
     (if emby_imdb_id = [] then m
      else
        let m1 = m(emby_imdb_id \<mapsto> lib_id)
        in if take 2 emby_imdb_id \<noteq> ''tt'' \<and> length emby_imdb_id > 5
           then m1(''tt'' @ emby_imdb_id \<mapsto> lib_id)
           else if take 2 emby_imdb_id = ''tt'' then m1(drop 2 emby_imdb_id \<mapsto> lib_id)
           else m1)"

definition add_plain :: "string \<Rightarrow> string option \<Rightarrow> (string \<rightharpoonup> string option) \<Rightarrow> (string \<rightharpoonup> string option)" where
  "add_plain key lib_id m = (if key = [] then m else m(key \<mapsto> lib_id))"

definition add_path :: "string \<Rightarrow> string option \<Rightarrow> (string \<rightharpoonup> string option) \<Rightarrow> (string \<rightharpoonup> string option)" where
  "add_path path lib_id m =
     (if path = [] then m
      else case extract_imdb_from_path path of
             Some p \<Rightarrow> if p = [] then m else m(p \<mapsto> lib_id)
           | None \<Rightarrow> m)"

definition add_to_lookups :: "lookups \<Rightarrow> lib_item \<Rightarrow> lookups" where
  "add_to_lookups l lib_item =
     (let lib_id = item_Id lib_item;
          provider_ids = item_ProviderIds lib_item
      in \<lparr>imdb_lookup = add_imdb (strip (get_str provider_ids ''Imdb'')) lib_id (imdb_lookup l),
          tmdb_lookup = add_plain (strip (get_str provider_ids ''Tmdb'')) lib_id (tmdb_lookup l),
          tvdb_lookup = add_plain (strip (get_str provider_ids ''Tvdb'')) lib_id (tvdb_lookup l),
          path_imdb_lookup = add_path (item_Path lib_item) lib_id (path_imdb_lookup l)\<rparr>)"

definition build_lookups :: "lib_item list \<Rightarrow> lookups" where
  "build_lookups library_items = foldl add_to_lookups empty_lookups library_items"

text \<open>\<open>k and k in table\<close>, with the value under the key.\<close>

definition hit :: "(string \<rightharpoonup> string option) \<Rightarrow> string option \<Rightarrow> string option option" where
  "hit table k = (case k of None \<Rightarrow> None | Some key \<Rightarrow> if key = [] then None else table key)"

text \<open>The two forms of the entry's IMDB id, \<open>normalized_imdb_id\<close> (with the prefix \<open>tt\<close>)
  and \<open>normalized_imdb_id_no_prefix\<close>. Then steps 1 to 4, the \<open>if\<close>/\<open>elif\<close> chain over the
  tables: the first table that has the key decides, also when the value under it is
  empty.\<close>

definition with_tt :: "string option \<Rightarrow> string option" where
  "with_tt imdb_id =
     (case imdb_id of
        None \<Rightarrow> None
      | Some i \<Rightarrow> if i \<noteq> [] \<and> take 2 i \<noteq> ''tt'' then Some (''tt'' @ i) else Some i)"

definition without_tt :: "string option \<Rightarrow> string option" where
  "without_tt imdb_id =
     (case imdb_id of
        None \<Rightarrow> None
      | Some i \<Rightarrow> if i \<noteq> [] \<and> take 2 i = ''tt'' then Some (drop 2 i) else Some i)"

definition match_ids ::
  "lookups \<Rightarrow> string option \<Rightarrow> string option \<Rightarrow> string option \<Rightarrow> string \<Rightarrow> string option" where
  "match_ids l imdb_id tmdb_id tvdb_id item_type =
     (let normalized_imdb_id = with_tt imdb_id;
          normalized_imdb_id_no_prefix = without_tt imdb_id
      in case hit (imdb_lookup l) normalized_imdb_id of Some v \<Rightarrow> v
         | None \<Rightarrow> (case hit (imdb_lookup l) normalized_imdb_id_no_prefix of Some v \<Rightarrow> v
         | None \<Rightarrow> (case hit (path_imdb_lookup l) normalized_imdb_id of Some v \<Rightarrow> v
         | None \<Rightarrow> (case hit (tmdb_lookup l) tmdb_id of Some v \<Rightarrow> v
         | None \<Rightarrow> (if item_type = ''show''
                     then (case hit (tvdb_lookup l) tvdb_id of Some v \<Rightarrow> v | None \<Rightarrow> None)
                     else None)))))"

text \<open>Step 5 of \<open>process_item\<close>: the first item of the same name, letter case apart, and of
  the same year.\<close>

fun find_name_year :: "string \<Rightarrow> int option \<Rightarrow> lib_item list \<Rightarrow> lib_item option" where
  "find_name_year title year [] = None"
| "find_name_year title year (lib_item # rest) =
     (if lower (item_Name lib_item) = lower title \<and> item_ProductionYear lib_item = year
      then Some lib_item else find_name_year title year rest)"

definition match_library ::
  "lib_item list \<Rightarrow> string \<Rightarrow> int option \<Rightarrow> string option \<Rightarrow> string option \<Rightarrow> string option
     \<Rightarrow> string \<Rightarrow> string option" where
  "match_library library_items title year imdb_id tmdb_id tvdb_id item_type =
     (let matched_emby_id = match_ids (build_lookups library_items) imdb_id tmdb_id tvdb_id item_type
      in if \<not> truthy_str matched_emby_id \<and> truthy_int year
         then (case find_name_year title year library_items of
                 Some lib_item \<Rightarrow> item_Id lib_item
               | None \<Rightarrow> matched_emby_id)
         else matched_emby_id)"

text \<open>\<open>str(ids.get(k)).strip() if ids.get(k) else None\<close>\<close>

definition str_id :: "idval option \<Rightarrow> string option" where
  "str_id v = when_truthy v (\<lambda>x. Some (strip (py_str x)))"

text \<open>\<open>if trakt_id: add_emby_id_mapping(trakt_id, ...)\<close>\<close>

definition store_if_trakt ::
  "env \<Rightarrow> string option \<Rightarrow> string option \<Rightarrow> string \<Rightarrow> string \<Rightarrow> state \<Rightarrow> state" where
  "store_if_trakt e trakt_id emby_id item_type title s =
     (case trakt_id of
        None \<Rightarrow> s
      | Some t \<Rightarrow> if t = [] then s else add_emby_id_mapping e t emby_id item_type title s)"

definition empty_media :: media where
  "empty_media = \<lparr>md_title = None, md_year = None, md_ids = []\<rparr>"

text \<open>\<open>ids.get('imdb', '').strip() if ids.get('imdb') else None\<close>: a number has no
  \<open>strip\<close>.\<close>

definition imdb_of :: "ids \<Rightarrow> py_error + string option" where
  "imdb_of ids =
     (case get_id ids ''imdb'' of
        Some (IdInt n) \<Rightarrow> if n \<noteq> 0 then Inl AttributeError else Inr None
      | Some (IdStr i) \<Rightarrow> if i \<noteq> [] then Inr (Some (strip i)) else Inr None
      | _ \<Rightarrow> Inr None)"

text \<open>The fast path of \<open>process_item\<close>: the stored Emby id for the entry's Trakt id, when
  both are there and not empty.\<close>

definition stored_emby_id :: "state \<Rightarrow> string \<Rightarrow> string option \<Rightarrow> string option" where
  "stored_emby_id s item_type trakt_id =
     (case trakt_id of
        None \<Rightarrow> None
      | Some t \<Rightarrow>
          if t \<noteq> [] \<and> truthy_str (get_emby_id_from_mapping s item_type t)
          then get_emby_id_from_mapping s item_type t else None)"

definition media_of :: "trakt_item \<Rightarrow> media" where
  "media_of item =
     (if ti_type item = ''movie''
      then (case ti_movie item of Some m \<Rightarrow> m | None \<Rightarrow> empty_media)
      else (case ti_show item of Some m \<Rightarrow> m | None \<Rightarrow> empty_media))"

definition process_item ::
  "env \<Rightarrow> trakt_item \<Rightarrow> string option \<Rightarrow> string option \<Rightarrow> state
     \<Rightarrow> (py_error + (string \<times> string) option) \<times> state" where
  "process_item e item library_id collection_name s =
     (let media = media_of item;
          title = (case md_title media of None \<Rightarrow> [] | Some t \<Rightarrow> t);
          year = md_year media;
          ids = md_ids media
      in if ids = [] \<or> \<not> (truthy_id (get_id ids ''imdb'') \<or> truthy_id (get_id ids ''tmdb'')
                              \<or> truthy_id (get_id ids ''trakt''))
         then (Inr None,
               snd (add_to_missing_items e media (ti_type item) collection_name library_id
                      ''No usable IDs available'' s))
         else
           case imdb_of ids of
             Inl err \<Rightarrow> (Inl err, s)
           | Inr imdb_id \<Rightarrow>
               let tmdb_id = str_id (get_id ids ''tmdb'');
                   trakt_id = str_id (get_id ids ''trakt'');
                   tvdb_id = str_id (get_id ids ''tvdb'');
                   item_type = (if ti_type item = ''movie'' then ''movie'' else ''show'')
               in case stored_emby_id s item_type trakt_id of
                    Some emby_id \<Rightarrow> (Inr (Some (emby_id, ti_type item)), s)
                  | None \<Rightarrow>
                      (case get_emby_library_items e
                              (if ti_type item = ''movie'' then ''Movie'' else ''Series'')
                              library_id False s of
                         (Inl err, s1) \<Rightarrow> (Inl err, s1)
                       | (Inr library_items, s1) \<Rightarrow>
                           (case match_library library_items title year imdb_id tmdb_id tvdb_id
                                   (ti_type item) of
                              Some matched_emby_id \<Rightarrow>
                                if matched_emby_id \<noteq> [] then
                                  (Inr (Some (matched_emby_id, ti_type item)),
                                   store_if_trakt e trakt_id (Some matched_emby_id) item_type
                                     title s1)
                                else
                                  (Inr None,
                                   snd (add_to_missing_items e media (ti_type item) collection_name
                                          library_id ''No matching IDs found in Emby library'' s1))
                            | None \<Rightarrow>
                                (Inr None,
                                 snd (add_to_missing_items e media (ti_type item) collection_name
                                        library_id ''No matching IDs found in Emby library'' s1)))))"

section \<open>Collection Sync Driver\<close>

text \<open>The loop of \<open>find_collection_by_name\<close> over the collections, names compared in
  lower case; it returns the \<open>Id\<close> of the first collection of that name. With \<open>None\<close> for
  the name the comparison raises, and the function's handler returns \<open>None\<close>.\<close>

fun find_named :: "string option \<Rightarrow> lib_item list \<Rightarrow> string option" where
  "find_named collection_name [] = None"
| "find_named None (item # rest) = None"
| "find_named (Some n) (item # rest) =
     (if lower (item_Name item) = lower n then item_Id item else find_named (Some n) rest)"

definition find_collection_by_name ::
  "env \<Rightarrow> string option \<Rightarrow> state \<Rightarrow> (py_error + string option) \<times> state" where
  "find_collection_by_name e collection_name s =
     (case EMBY_SERVER e of
        None \<Rightarrow> (Inl AttributeError, s)
      | Some server \<Rightarrow>
          (case http e GetBoxSets s of
             (Raised, s1) \<Rightarrow> (Inr None, s1)
           | (Response st b, s1) \<Rightarrow>
               if st = 200 then
                 (case b of
                    NotJson \<Rightarrow> (Inr None, s1)
                  | Json items_member id_member \<Rightarrow>
                      (Inr (find_named collection_name
                              (case items_member of None \<Rightarrow> [] | Some i \<Rightarrow> i)), s1))
               else (Inr None, s1)))"

definition add_movie_to_emby_collection ::
  "env \<Rightarrow> string \<Rightarrow> string \<Rightarrow> state \<Rightarrow> (py_error + bool) \<times> state" where
  "add_movie_to_emby_collection e movie_id collection_id s =
     (case EMBY_SERVER e of
        None \<Rightarrow> (Inl AttributeError, s)
      | Some server \<Rightarrow>
          (case http e (PostCollectionItems collection_id movie_id) s of
             (Raised, s1) \<Rightarrow> (Inr False, s1)
           | (Response st b, s1) \<Rightarrow>
               if status_ok st then (Inr True, s1)
               else
                 (case http e (GetItem movie_id) s1 of
                    (Raised, s2) \<Rightarrow> (Inr False, s2)
                  | (Response get_st get_b, s2) \<Rightarrow>
                      if get_st = 200 then
                        (case http e (PostCollectionItems collection_id movie_id) s2 of
                           (Raised, s3) \<Rightarrow> (Inr False, s3)
                         | (Response post_st post_b, s3) \<Rightarrow> (Inr (status_ok post_st), s3))
                      else (Inr False, s2))))"

text \<open>An exception inside a \<open>try\<close> block whose handler returns \<open>None\<close>.\<close>

definition caught :: "(py_error + string option) \<times> state \<Rightarrow> (py_error + string option) \<times> state" where
  "caught r = (case r of (Inl err, s) \<Rightarrow> (Inr None, s) | (Inr v, s) \<Rightarrow> (Inr v, s))"

definition create_collection_legacy_format ::
  "env \<Rightarrow> string \<Rightarrow> string list \<Rightarrow> state \<Rightarrow> (py_error + string option) \<times> state" where
  "create_collection_legacy_format e collection_name movie_ids s =
     (if movie_ids = [] then (Inr None, s)
      else case EMBY_SERVER e of
        None \<Rightarrow> (Inl AttributeError, s)
      | Some server \<Rightarrow>
          (case http e (PostCollections collection_name movie_ids) s of
             (Raised, s1) \<Rightarrow> (Inr None, s1)
           | (Response st b, s1) \<Rightarrow>
               if status_ok st then
                 (case (case b of NotJson \<Rightarrow> None | Json items_member id_member \<Rightarrow> id_member) of
                    Some collection_id \<Rightarrow>
                      if collection_id \<noteq> [] then (Inr (Some collection_id), s1)
                      else (case caught (find_collection_by_name e (Some collection_name) s1) of
                              (r, s2) \<Rightarrow> (if r = Inr (Some []) then Inr None else r, s2))
                  | None \<Rightarrow>
                      (case caught (find_collection_by_name e (Some collection_name) s1) of
                         (r, s2) \<Rightarrow> (if r = Inr (Some []) then Inr None else r, s2)))
               else (Inr None, s1)))"

text \<open>The loop over the remaining ids in the fallback of
  \<open>create_emby_collection_with_movies\<close>, counting the ids added.\<close>

fun add_remaining ::
  "env \<Rightarrow> string list \<Rightarrow> string \<Rightarrow> nat \<Rightarrow> state \<Rightarrow> (py_error + nat) \<times> state" where
  "add_remaining e [] collection_id success_count s = (Inr success_count, s)"
| "add_remaining e (movie_id # rest) collection_id success_count s =
     (case add_movie_to_emby_collection e movie_id collection_id s of
        (Inl err, s1) \<Rightarrow> (Inl err, s1)
      | (Inr added, s1) \<Rightarrow>
          add_remaining e rest collection_id (if added then Suc success_count else success_count) s1)"

definition create_emby_collection_with_movies ::
  "env \<Rightarrow> string \<Rightarrow> string list \<Rightarrow> state \<Rightarrow> (py_error + string option) \<times> state" where
  "create_emby_collection_with_movies e collection_name movie_ids s =
     (case movie_ids of
        [] \<Rightarrow> (Inr None, s)
      | first_movie_id # remaining \<Rightarrow>
          (case find_collection_by_name e (Some collection_name) s of
             (Inl err, s1) \<Rightarrow> (Inl err, s1)
           | (Inr existing_id, s1) \<Rightarrow>
               if truthy_str existing_id then (Inr existing_id, s1)
               else
                 (case create_collection_legacy_format e collection_name movie_ids s1 of
                    (Inl err, s2) \<Rightarrow> (Inl err, s2)
                  | (Inr collection_id, s2) \<Rightarrow>
                      if truthy_str collection_id then (Inr collection_id, s2)
                      else
                        (case EMBY_SERVER e of
                           None \<Rightarrow> (Inl AttributeError, s2)
                         | Some server \<Rightarrow>
                             (case http e (PostItemCollection first_movie_id collection_name) s2 of
                                (Raised, s3) \<Rightarrow> (Inr None, s3)
                              | (Response st b, s3) \<Rightarrow>
                                  if status_ok st then
                                    (case caught (find_collection_by_name e (Some collection_name) s3) of
                                       (Inr (Some new_id), s4) \<Rightarrow>
                                         if new_id \<noteq> [] then
                                           (case add_remaining e remaining new_id 1 s4 of
                                              (Inl err, s5) \<Rightarrow> (Inr None, s5)
                                            | (Inr success_count, s5) \<Rightarrow> (Inr (Some new_id), s5))
                                         else (Inr None, s4)
                                     | (r, s4) \<Rightarrow> (Inr None, s4))
                                  else (Inr None, s3))))))"

section \<open>Rechecking an unresolved record\<close>

text \<open>The loop of \<open>recheck_missing_item\<close> over the memberships of the record: the
  collection is looked up by name, and the item added where the collection exists.\<close>

fun add_to_collections ::
  "env \<Rightarrow> string \<Rightarrow> collection_info list \<Rightarrow> nat \<Rightarrow> state \<Rightarrow> (py_error + nat) \<times> state" where
  "add_to_collections e emby_id [] success_count s = (Inr success_count, s)"
| "add_to_collections e emby_id (collection_info # rest) success_count s =
     (case find_collection_by_name e (coll_name collection_info) s of
        (Inl err, s1) \<Rightarrow> (Inl err, s1)
      | (Inr None, s1) \<Rightarrow> add_to_collections e emby_id rest success_count s1
      | (Inr (Some collection_id), s1) \<Rightarrow>
          if collection_id = [] then add_to_collections e emby_id rest success_count s1
          else
            (case add_movie_to_emby_collection e emby_id collection_id s1 of
               (Inl err, s2) \<Rightarrow> (Inl err, s2)
             | (Inr added, s2) \<Rightarrow>
                 add_to_collections e emby_id rest
                   (if added then Suc success_count else success_count) s2))"

text \<open>The memberships of a record, the legacy shape converted.\<close>

definition collections_of :: "missing_item \<Rightarrow> collection_info list" where
  "collections_of item =
     (let library_id = (case mi_library_id item of None \<Rightarrow> [] | Some l \<Rightarrow> l);
          collection_name = (case mi_collection_name item of None \<Rightarrow> [] | Some n \<Rightarrow> n);
          collections = (case mi_collections item of None \<Rightarrow> [] | Some cs \<Rightarrow> cs)
      in if collections = [] \<and> collection_name \<noteq> []
         then [\<lparr>coll_name = Some collection_name, coll_library_id = Some library_id\<rparr>]
         else collections)"

text \<open>The second half of \<open>recheck_missing_item\<close>, without a manual id: the library is
  searched again for the record.\<close>

definition recheck_by_search ::
  "env \<Rightarrow> nat \<Rightarrow> string \<Rightarrow> int option \<Rightarrow> string \<Rightarrow> string \<Rightarrow> ids \<Rightarrow> collection_info list
     \<Rightarrow> state \<Rightarrow> (py_error + bool) \<times> state" where
  "recheck_by_search e i title year item_type library_id trakt_ids collections s =
     (case (if item_type = ''movie''
            then search_movie_in_emby e title year trakt_ids (Some library_id) s
            else search_tv_show_in_emby e title year trakt_ids (Some library_id) s) of
        (Inl err, s1) \<Rightarrow> (Inl err, s1)
      | (Inr found, s1) \<Rightarrow>
          (case (case found of None \<Rightarrow> None | Some f \<Rightarrow> if f = [] then None else Some f) of
             Some emby_id \<Rightarrow>
               (case add_to_collections e emby_id collections 0 s1 of
                  (Inl err, s2) \<Rightarrow> (Inl err, s2)
                | (Inr success_count, s2) \<Rightarrow>
                    if success_count > 0
                    then (Inr True, s2\<lparr>missing_items := delete_at i (missing_items s2)\<rparr>)
                    else (Inr False,
                          s2\<lparr>missing_items := (missing_items s2)
                               [i := (missing_items s2 ! i)
                                  \<lparr>mi_reason := ''Found in Emby but collection doesn''
                                       @ [CHR 0x27] @ ''t exist''\<rparr>]\<rparr>))
           | None \<Rightarrow>
               (case datetime_now e s1 of
                  (now, s2) \<Rightarrow>
                    (Inr False,
                     s2\<lparr>missing_items := (missing_items s2)
                          [i := (missing_items s2 ! i)\<lparr>mi_last_checked := now\<rparr>]\<rparr>))))"

text \<open>The result is the first component of the pair the function returns; the message
  for display is not modelled.\<close>

definition recheck_missing_item ::
  "env \<Rightarrow> int \<Rightarrow> string option \<Rightarrow> state \<Rightarrow> (py_error + bool) \<times> state" where
  "recheck_missing_item e item_index manual_emby_id s =
     (if item_index < 0 \<or> item_index \<ge> int (length (missing_items s)) then (Inr False, s)
      else
        let i = nat item_index;
            item = missing_items s ! i;
            title = mi_title item;
            year = mi_year item;
            item_type = mi_type item;
            library_id = (case mi_library_id item of None \<Rightarrow> [] | Some l \<Rightarrow> l);
            trakt_ids = (case mi_trakt_ids item of None \<Rightarrow> [] | Some d \<Rightarrow> d);
            collections = collections_of item
        in case manual_emby_id of
             Some manual \<Rightarrow>
               if manual = [] then
                 recheck_by_search e i title year item_type library_id trakt_ids collections s
               else
                 (case EMBY_SERVER e of
                    None \<Rightarrow> (Inl AttributeError, s)
                  | Some server \<Rightarrow>
                      (case http e (GetItem manual) s of
                         (Raised, s1) \<Rightarrow> (Inr False, s1)
                       | (Response st b, s1) \<Rightarrow>
                           if st = 200 then
                             let s2 = (case when_truthy (get_id trakt_ids ''trakt'') Some of
                                         Some t \<Rightarrow> add_emby_id_mapping e (py_str t) (Some manual)
                                                     item_type title s1
                                       | None \<Rightarrow> s1)
                             in (case add_to_collections e manual collections 0 s2 of
                                   (Inl err, s3) \<Rightarrow> (Inr False, s3)
                                 | (Inr success_count, s3) \<Rightarrow>
                                     if success_count > 0
                                     then (Inr True,
                                           s3\<lparr>missing_items := delete_at i (missing_items s3)\<rparr>)
                                     else (Inr False, s3))
                           else (Inr False, s1)))
           | None \<Rightarrow>
               recheck_by_search e i title year item_type library_id trakt_ids collections s)"

section \<open>Predicates of the specification\<close>

text \<open>
  The identity of a registry record is its Trakt id, where it has one that counts as
  true. \<open>exclusive\<close> is the cross-registry invariant of the specification: no such id
  in both registries. \<open>unique_ids\<close> is stronger: no such id twice in the two registries
  taken together. \<open>registry_step\<close> is one call of a registry operation.
\<close>

definition trakt_of :: "missing_item \<Rightarrow> idval option" where
  "trakt_of r = get_id (mi_ids r) ''trakt''"

definition primary_ids :: "missing_item list \<Rightarrow> idval option list" where
  "primary_ids rs = filter truthy_id (map trakt_of rs)"

definition exclusive :: "state \<Rightarrow> bool" where
  "exclusive s = (set (primary_ids (missing_items s)) \<inter> set (primary_ids (ignored_items s)) = {})"

definition unique_ids :: "state \<Rightarrow> bool" where
  "unique_ids s = distinct (primary_ids (missing_items s @ ignored_items s))"

inductive registry_step :: "env \<Rightarrow> state \<Rightarrow> state \<Rightarrow> bool" for e :: env where
  step_add: "registry_step e s
      (snd (add_to_missing_items e item_data item_type collection_name library_id reason s))"
| step_ignore: "registry_step e s (snd (ignore_missing_item e item_index s))"
| step_ignore_many: "registry_step e s (snd (ignore_missing_items e item_indices s))"
| step_unignore: "registry_step e s (snd (unignore_item e item_index s))"

text \<open>The year window of the fuzzy fallback: the item has no production year that counts
  as true, or one within a year of \<open>y\<close>.\<close>

definition in_year_window :: "int \<Rightarrow> lib_item \<Rightarrow> bool" where
  "in_year_window y item =
     (case item_ProductionYear item of None \<Rightarrow> True | Some iy \<Rightarrow> iy = 0 \<or> \<bar>iy - y\<bar> \<le> 1)"

text \<open>The TMDB id of a library item as the lookups read it.\<close>

definition tmdb_of :: "lib_item \<Rightarrow> string" where
  "tmdb_of x = strip (get_str (item_ProviderIds x) ''Tmdb'')"

text \<open>The type, the title and the Trakt id of a list entry as \<open>process_item\<close> reads them,
  and the key of the Mapping Store for the entry: \<open>None\<close> when the entry has no Trakt id that
  counts as true and is not blank.\<close>

definition entry_type :: "trakt_item \<Rightarrow> string" where
  "entry_type item = (if ti_type item = ''movie'' then ''movie'' else ''show'')"

definition entry_title :: "trakt_item \<Rightarrow> string" where
  "entry_title item = (case md_title (media_of item) of None \<Rightarrow> [] | Some t \<Rightarrow> t)"

definition entry_trakt :: "trakt_item \<Rightarrow> string option" where
  "entry_trakt item = str_id (get_id (md_ids (media_of item)) ''trakt'')"

definition primary_key :: "trakt_item \<Rightarrow> string option" where
  "primary_key item =
     (case entry_trakt item of
        None \<Rightarrow> None
      | Some t \<Rightarrow> if t = [] then None else Some (mapping_key (entry_type item) t))"

section \<open>Example data\<close>

definition demo_env :: env where
  "demo_env = \<lparr>EMBY_SERVER = Some ''http://emby:8096'', EMBY_MOVIES_LIBRARY_ID = None,
                EMBY_TV_LIBRARY_ID = None,
                respond = (\<lambda>history req. Response 404 NotJson),
                time_at = (\<lambda>n. ''2024-01-01T00:00:0'' @ show_nat n)\<rparr>"

definition empty_state :: state where
  "empty_state = \<lparr>emby_id_mapping = Map.empty, library_cache = Map.empty, missing_items = [],
                  ignored_items = [], requests_sent = [], clock = 0\<rparr>"

definition demo_record :: "int \<Rightarrow> string \<Rightarrow> missing_item" where
  "demo_record n t =
     \<lparr>mi_title = t, mi_year = Some 2010, mi_ids = [(''trakt'', IdInt n)], mi_type = ''movie'',
      mi_reason = ''No matching IDs found in Emby library'', mi_last_checked = ''2023-12-31'',
      mi_collections = Some [\<lparr>coll_name = Some ''Favorites'', coll_library_id = Some ''lib1''\<rparr>],
      mi_collection_name = None, mi_library_id = None, mi_ignored_on = None,
      mi_trakt_ids = None\<rparr>"

definition demo_media :: media where
  "demo_media = \<lparr>md_title = Some ''Inception'', md_year = Some 2010,
                  md_ids = [(''trakt'', IdInt 16662), (''imdb'', IdStr ''tt1375666'')]\<rparr>"

definition two_records :: state where
  "two_records = empty_state\<lparr>missing_items := [demo_record 1 ''Alien'', demo_record 2 ''Brazil''],
                              ignored_items := [demo_record 3 ''Casablanca'']\<rparr>"

definition duplicate_state :: state where
  "duplicate_state = empty_state\<lparr>missing_items := [demo_record 5 ''Alien'', demo_record 5 ''Alien'']\<rparr>"

definition ignored_once :: state where
  "ignored_once = snd (ignore_missing_item demo_env 0
      (snd (add_to_missing_items demo_env demo_media ''movie'' (Some ''Favorites'') (Some ''lib1'')
              ''No matching IDs found in Emby library'' empty_state)))"

definition dune_1984 :: lib_item where
  "dune_1984 = \<lparr>item_Id = Some ''e1984'', item_Name = ''Dune'', item_ProductionYear = Some 1984,
                 item_ProviderIds = [(''Imdb'', ''tt0087182'')], item_Path = ''/movies/Dune (1984).mkv''\<rparr>"

definition dune_2021 :: lib_item where
  "dune_2021 = \<lparr>item_Id = Some ''e2021'', item_Name = ''Dune'', item_ProductionYear = Some 2021,
                 item_ProviderIds = [(''Imdb'', ''tt1160419'')], item_Path = ''/movies/Dune (2021).mkv''\<rparr>"

definition cached_state :: "string \<Rightarrow> lib_item list \<Rightarrow> state" where
  "cached_state key items = empty_state\<lparr>library_cache := [key \<mapsto> items]\<rparr>"

definition blade_runner :: lib_item where
  "blade_runner = \<lparr>item_Id = Some ''e335'', item_Name = ''Blade Runner 2049'',
                    item_ProductionYear = Some 2017,
                    item_ProviderIds = [(''Tmdb'', ''335984'')],
                    item_Path = ''/movies/Blade Runner 2049 (2017).mkv''\<rparr>"

definition dune_entry :: trakt_item where
  "dune_entry = \<lparr>ti_type = ''movie'',
                  ti_movie = Some \<lparr>md_title = Some ''Dune'', md_year = Some 2021,
                                   md_ids = [(''trakt'', IdInt 99), (''tmdb'', IdInt 335984)]\<rparr>,
                  ti_show = None\<rparr>"

definition inception_entry :: trakt_item where
  "inception_entry = \<lparr>ti_type = ''movie'', ti_movie = Some demo_media, ti_show = None\<rparr>"

definition stored_record :: mapping where
  "stored_record = \<lparr>map_emby_id = Some ''e42'', map_type = ''movie'',
                     map_title = ''Inception (2010)'', map_last_updated = ''2023-06-01T12:00:00''\<rparr>"

definition mapped_state :: state where
  "mapped_state = empty_state\<lparr>emby_id_mapping := [''movie_16662'' \<mapsto> stored_record]\<rparr>"

definition failing_lookup_env :: env where
  "failing_lookup_env = demo_env\<lparr>respond := (\<lambda>history req.
       case req of GetItem item_id \<Rightarrow> Response 404 NotJson
                 | _ \<Rightarrow> Response 200 (Json (Some []) None))\<rparr>"

definition existing_collection_env :: env where
  "existing_collection_env = demo_env\<lparr>respond := (\<lambda>history req.
       Response 200 (Json (Some [\<lparr>item_Id = Some ''c1'', item_Name = ''Favorites'',
                                   item_ProductionYear = None, item_ProviderIds = [],
                                   item_Path = []\<rparr>]) None))\<rparr>"

section \<open>Properties of title normalisation\<close>

text \<open>A word as \<open>str.split\<close> returns it: not empty, and without white space.\<close>

definition good_word :: "string \<Rightarrow> bool" where
  "good_word w = (w \<noteq> [] \<and> (\<forall>c\<in>set w. \<not> is_space c))"

lemma split_from_words:
  "\<forall>c\<in>set cur. \<not> is_space c \<Longrightarrow> w \<in> set (split_from cur s) \<Longrightarrow>
     good_word w \<and> set w \<subseteq> set cur \<union> set s"
proof (induction s arbitrary: cur)
  case Nil
  then show ?case by (auto simp: good_word_def split: if_splits)
next
  case (Cons c cs)
  show ?case
  proof (cases "is_space c")
    case True
    then show ?thesis using Cons.prems Cons.IH[of "[]"]
      by (auto simp: good_word_def split: if_splits)
  next
    case False
    then have "w \<in> set (split_from (cur @ [c]) cs)" using Cons.prems by simp
    moreover have "\<forall>d\<in>set (cur @ [c]). \<not> is_space d" using False Cons.prems by simp
    ultimately have "good_word w \<and> set w \<subseteq> set (cur @ [c]) \<union> set cs"
      by (rule Cons.IH[rotated])
    then show ?thesis by auto
  qed
qed

lemma split_from_append_word:
  "\<forall>c\<in>set w. \<not> is_space c \<Longrightarrow> split_from cur (w @ s) = split_from (cur @ w) s"
  by (induction w arbitrary: cur) simp_all

lemma join_sp_Cons:
  "join_sp (v # rest) = v @ (if rest = [] then [] else CHR '' '' # join_sp rest)"
  by (cases rest) simp_all

lemma space_is_space: "is_space (CHR '' '')"
  by (simp add: is_space_def)

lemma split_join:
  "\<forall>w\<in>set ws. good_word w \<Longrightarrow> split_from [] (join_sp ws) = ws"
proof (induction ws rule: join_sp.induct)
  case 1
  then show ?case by simp
next
  case (2 w)
  then have "split_from [] (w @ []) = split_from ([] @ w) []"
    by (intro split_from_append_word) (simp add: good_word_def)
  then show ?case using 2 by (simp add: good_word_def)
next
  case (3 w v ws)
  have w: "\<forall>c\<in>set w. \<not> is_space c" "w \<noteq> []" using 3(2) by (simp_all add: good_word_def)
  have "split_from [] (w @ CHR '' '' # join_sp (v # ws)) = split_from ([] @ w) (CHR '' '' # join_sp (v # ws))"
    using w(1) by (rule split_from_append_word)
  also have "\<dots> = w # split_from [] (join_sp (v # ws))"
    using w(2) by (simp add: space_is_space)
  also have "\<dots> = w # v # ws" using 3 by simp
  finally show ?case by simp
qed

lemma set_join_sp: "c \<in> set (join_sp ws) \<Longrightarrow> c = CHR '' '' \<or> (\<exists>w\<in>set ws. c \<in> set w)"
  by (induction ws rule: join_sp.induct) auto

lemma year_match_paren:
  assumes "year_match s = Some r"
  shows "CHR ''('' \<in> set s"
proof -
  obtain rest where "dropWhile is_space s = CHR ''('' # rest"
    using assms by (auto simp: year_match_def split: list.splits if_splits)
  then have "CHR ''('' \<in> set (dropWhile is_space s)" by simp
  then show ?thesis by (rule set_dropWhileD)
qed


lemma remove_years_id: "CHR ''('' \<notin> set s \<Longrightarrow> remove_years s = s"
proof (induction s)
  case Nil
  then show ?case by simp
next
  case (Cons c cs)
  have "year_match (c # cs) = None"
  proof (cases "year_match (c # cs)")
    case None then show ?thesis .
  next
    case (Some r)
    then have "CHR ''('' \<in> set (c # cs)" by (rule year_match_paren)
    with Cons.prems show ?thesis by simp
  qed
  then show ?case using Cons by simp
qed

lemma dropWhile_join_good:
  assumes "good_word v"
  shows "dropWhile is_space (join_sp (v # rest)) = join_sp (v # rest)"
proof -
  obtain a v' where v: "v = a # v'" using assms by (cases v) (auto simp: good_word_def)
  then have "\<not> is_space a" using assms by (simp add: good_word_def)
  then show ?thesis unfolding join_sp_Cons v by simp
qed

lemma strip_prefix_ws_join:
  assumes good: "\<forall>w\<in>set ws. good_word w"
    and p: "\<forall>c\<in>set p. \<not> is_space c"
    and m: "strip_prefix_ws p (join_sp ws) = Some r"
  shows "\<exists>ws'. (\<forall>w\<in>set ws'. good_word w) \<and> set ws' \<subseteq> set ws \<and> r = join_sp ws'"
proof -
  let ?s = "join_sp ws"
  from m obtain c cs where tk: "take (length p) ?s = p"
    and dr: "drop (length p) ?s = c # cs" and sp: "is_space c" and r: "r = dropWhile is_space cs"
    by (auto simp: strip_prefix_ws_def split: if_splits list.splits)
  have c_in: "c \<in> set ?s" using dr by (metis in_set_dropD list.set_intros(1))
  obtain w rest where ws: "ws = w # rest"
    using dr by (cases ws) auto
  have gw: "good_word w" using good ws by simp
  have s_eq: "?s = w @ (if rest = [] then [] else CHR '' '' # join_sp rest)"
    unfolding ws by (rule join_sp_Cons)
  have len: "length p = length w"
  proof (rule ccontr)
    assume ne: "length p \<noteq> length w"
    show False
    proof (cases "length p < length w")
      case True
      have "c = ?s ! length p" using dr by (metis nth_via_drop)
      also have "\<dots> = w ! length p" using True by (simp add: s_eq nth_append)
      finally have "c \<in> set w" using True by simp
      then show False using gw sp by (simp add: good_word_def)
    next
      case False
      then have lt: "length w < length p" using ne by simp
      have lp: "length p < length ?s" using dr
        by (metis drop_all list.distinct(1) not_le_imp_less)
      then have nonempty: "rest \<noteq> []" using lt s_eq by (auto split: if_splits)
      have "p ! length w = ?s ! length w" using lt tk by (metis nth_take)
      also have "\<dots> = CHR '' ''" using nonempty by (simp add: s_eq nth_append)
      finally have "CHR '' '' \<in> set p" using lt by (metis nth_mem)
      then show False using p space_is_space by blast
    qed
  qed
  have "rest \<noteq> []"
  proof
    assume "rest = []"
    then have "drop (length p) ?s = []" using len s_eq by simp
    then show False using dr by simp
  qed
  then obtain v rest' where rest: "rest = v # rest'" by (cases rest) auto
  have "c # cs = CHR '' '' # join_sp rest" using dr len s_eq rest by simp
  then have "r = dropWhile is_space (join_sp (v # rest'))" using r rest by simp
  also have "\<dots> = join_sp (v # rest')"
    using good ws rest by (intro dropWhile_join_good) simp
  finally have "r = join_sp rest" using rest by simp
  moreover have "\<forall>w\<in>set rest. good_word w" using good ws by simp
  moreover have "set rest \<subseteq> set ws" using ws by auto
  ultimately show ?thesis by blast
qed

lemma remove_article_join:
  assumes "\<forall>w\<in>set ws. good_word w"
  shows "\<exists>ws'. (\<forall>w\<in>set ws'. good_word w) \<and> set ws' \<subseteq> set ws \<and> remove_article (join_sp ws) = join_sp ws'"
proof -
  have np: "\<forall>c\<in>set ''the''. \<not> is_space c" "\<forall>c\<in>set ''a''. \<not> is_space c"
    "\<forall>c\<in>set ''an''. \<not> is_space c"
    by (simp_all add: is_space_def)
  show ?thesis
    unfolding remove_article_def
    using strip_prefix_ws_join[OF assms np(1)] strip_prefix_ws_join[OF assms np(2)]
      strip_prefix_ws_join[OF assms np(3)] assms
    by (auto split: option.splits)
qed

lemma remove_marvel_join:
  assumes "\<forall>w\<in>set ws. good_word w"
  shows "\<exists>ws'. (\<forall>w\<in>set ws'. good_word w) \<and> set ws' \<subseteq> set ws \<and> remove_marvel (join_sp ws) = join_sp ws'"
proof -
  have np: "\<forall>c\<in>set (''marvel'' @ [CHR 0x27] @ ''s''). \<not> is_space c"
    "\<forall>c\<in>set ''marvels''. \<not> is_space c"
    by (simp_all add: is_space_def)
  show ?thesis
    unfolding remove_marvel_def
    using strip_prefix_ws_join[OF assms np(1)] strip_prefix_ws_join[OF assms np(2)] assms
    by (auto split: option.splits)
qed


definition ok_char :: "char \<Rightarrow> bool" where
  "ok_char c = (lower_char c = c \<and> (is_word c \<or> is_space c))"

lemma lower_char_idem: "lower_char (lower_char c) = lower_char c"
  unfolding lower_char_def lower_table_def by (simp split: option.splits)

lemma set_remove_years: "set (remove_years s) \<subseteq> set s"
proof (induction s rule: remove_years.induct)
  case 1
  then show ?case by simp
next
  case (2 c cs)
  show ?case
  proof (cases "year_match (c # cs)")
    case None
    then show ?thesis using 2 by auto
  next
    case (Some r)
    then obtain rest where "dropWhile is_space (c # cs) = rest" and "set r \<subseteq> set rest"
      by (auto simp: year_match_def split: list.splits if_splits dest: set_dropWhileD)
    then have "set r \<subseteq> set (c # cs)" using set_dropWhileD by fastforce
    then show ?thesis using 2 Some by auto
  qed
qed

lemma set_strip_prefix_ws: "strip_prefix_ws p s = Some r \<Longrightarrow> set r \<subseteq> set s"
proof -
  assume "strip_prefix_ws p s = Some r"
  then obtain c cs where "drop (length p) s = c # cs" and "r = dropWhile is_space cs"
    by (auto simp: strip_prefix_ws_def split: if_splits list.splits)
  then have "set r \<subseteq> set (drop (length p) s)"
    by (auto dest: set_dropWhileD)
  then show ?thesis using set_drop_subset by fastforce
qed

lemma set_remove_article: "set (remove_article s) \<subseteq> set s"
  unfolding remove_article_def by (auto split: option.splits dest: set_strip_prefix_ws)

lemma set_remove_marvel: "set (remove_marvel s) \<subseteq> set s"
  unfolding remove_marvel_def by (auto split: option.splits dest: set_strip_prefix_ws)

lemma normalize_title_shape:
  "\<exists>ws. (\<forall>w\<in>set ws. good_word w \<and> (\<forall>c\<in>set w. ok_char c)) \<and> normalize_title x = join_sp ws"
proof -
  let ?z = "remove_marvel (remove_article
       (filter (\<lambda>c. is_word c \<or> is_space c) (remove_years (lower x))))"
  have "set ?z \<subseteq> set (filter (\<lambda>c. is_word c \<or> is_space c) (remove_years (lower x)))"
    using set_remove_marvel set_remove_article by blast
  moreover have "set (remove_years (lower x)) \<subseteq> set (lower x)" by (rule set_remove_years)
  ultimately have z: "\<forall>c\<in>set ?z. ok_char c"
    by (auto simp: ok_char_def lower_def lower_char_idem)
  have "\<forall>w\<in>set (split_ws ?z). good_word w \<and> (\<forall>c\<in>set w. ok_char c)"
  proof
    fix w assume "w \<in> set (split_ws ?z)"
    then have "good_word w \<and> set w \<subseteq> set [] \<union> set ?z"
      unfolding split_ws_def by (intro split_from_words) simp_all
    then show "good_word w \<and> (\<forall>c\<in>set w. ok_char c)" using z by auto
  qed
  then show ?thesis unfolding normalize_title_def by blast
qed

lemma normalize_title_join:
  assumes "\<forall>w\<in>set ws. good_word w \<and> (\<forall>c\<in>set w. ok_char c)"
  shows "normalize_title (join_sp ws) = remove_marvel (remove_article (join_sp ws))"
proof -
  let ?y = "join_sp ws"
  have good: "\<forall>w\<in>set ws. good_word w" using assms by simp
  have sp: "ok_char (CHR '' '')" by (simp add: ok_char_def char_class_defs)
  have ok: "\<forall>c\<in>set ?y. ok_char c" using assms sp by (auto dest: set_join_sp)
  have "lower ?y = ?y" unfolding lower_def using ok by (simp add: map_idI ok_char_def)
  moreover have "CHR ''('' \<notin> set ?y"
  proof
    assume "CHR ''('' \<in> set ?y"
    then have "ok_char (CHR ''('')" using ok by blast
    then show False by (simp add: ok_char_def char_class_defs)
  qed
  then have "remove_years ?y = ?y" by (rule remove_years_id)
  moreover have "filter (\<lambda>c. is_word c \<or> is_space c) ?y = ?y"
    using ok by (simp add: ok_char_def)
  moreover obtain ws1 where ws1: "\<forall>w\<in>set ws1. good_word w" "remove_article ?y = join_sp ws1"
    using remove_article_join[OF good] by blast
  moreover obtain ws2 where ws2: "\<forall>w\<in>set ws2. good_word w" "remove_marvel (join_sp ws1) = join_sp ws2"
    using remove_marvel_join[OF ws1(1)] by blast
  moreover have "join_sp (split_ws (join_sp ws2)) = join_sp ws2"
    unfolding split_ws_def using ws2(1) by (simp add: split_join)
  ultimately show ?thesis by (simp add: normalize_title_def)
qed

text \<open>
  Claim C5 says that \<open>normalize_title\<close> is a total, deterministic function and that
  \<open>normalize_title (normalize_title x) = normalize_title x\<close> for every string \<open>x\<close>. The
  function is total, but the equation fails: the leading article and the brand prefix
  are each removed once, so the title below loses \<open>marvels\<close> in the first pass and \<open>the\<close>
  only in the second.
\<close>

theorem C5_not_idempotent_counterexample:
  "normalize_title (normalize_title (''Marvel'' @ [CHR 0x27] @ ''s The Avengers''))
     \<noteq> normalize_title (''Marvel'' @ [CHR 0x27] @ ''s The Avengers'')"
  by (simp add: normalize_defs)

text \<open>
  Claim C5, amended: for every string \<open>x\<close>, normalising the normalised title only removes
  one more leading article (\<open>the\<close>, \<open>a\<close>, \<open>an\<close>) and one more leading \<open>marvels\<close>; every other
  step leaves a normalised title as it is. So \<open>normalize_title\<close> is idempotent at exactly
  the titles whose normal form does not begin with one of these words and a blank.
\<close>

theorem C5_normalize_title_twice:
  "normalize_title (normalize_title x) = remove_marvel (remove_article (normalize_title x))"
proof -
  obtain ws where "\<forall>w\<in>set ws. good_word w \<and> (\<forall>c\<in>set w. ok_char c)"
    and "normalize_title x = join_sp ws"
    using normalize_title_shape by blast
  then show ?thesis using normalize_title_join by simp
qed

section \<open>Properties of the registries\<close>

lemma primary_ids_append: "primary_ids (xs @ ys) = primary_ids xs @ primary_ids ys"
  by (simp add: primary_ids_def)

lemma unique_imp_exclusive: "unique_ids s \<Longrightarrow> exclusive s"
  by (auto simp: unique_ids_def exclusive_def primary_ids_append)

lemma primary_ids_move:
  assumes "i < length ms" and "trakt_of m' = trakt_of (ms ! i)"
    and "distinct (primary_ids (ms @ ig))"
  shows "distinct (primary_ids (delete_at i ms @ ig @ [m']))"
proof -
  have "ms = take i ms @ [ms ! i] @ drop (Suc i) ms"
    using assms(1) by (simp add: id_take_nth_drop[symmetric])
  then have "primary_ids (ms @ ig) =
      primary_ids (take i ms) @ primary_ids [ms ! i] @ primary_ids (drop (Suc i) ms) @ primary_ids ig"
    by (metis primary_ids_append append_assoc)
  moreover have "primary_ids [m'] = primary_ids [ms ! i]"
    using assms(2) by (simp add: primary_ids_def)
  then have "primary_ids (delete_at i ms @ ig @ [m']) =
      primary_ids (take i ms) @ primary_ids (drop (Suc i) ms) @ primary_ids ig @ primary_ids [ms ! i]"
    by (simp only: delete_at_def primary_ids_append append_assoc)
  ultimately show ?thesis
    using assms(3) by auto
qed

lemma primary_ids_move_back:
  assumes "i < length ig" and "trakt_of m' = trakt_of (ig ! i)"
    and "distinct (primary_ids (ms @ ig))"
  shows "distinct (primary_ids ((ms @ [m']) @ delete_at i ig))"
proof -
  have "ig = take i ig @ [ig ! i] @ drop (Suc i) ig"
    using assms(1) by (simp add: id_take_nth_drop[symmetric])
  then have "primary_ids (ms @ ig) =
      primary_ids ms @ primary_ids (take i ig) @ primary_ids [ig ! i] @ primary_ids (drop (Suc i) ig)"
    by (metis primary_ids_append)
  moreover have "primary_ids [m'] = primary_ids [ig ! i]"
    using assms(2) by (simp add: primary_ids_def)
  then have "primary_ids ((ms @ [m']) @ delete_at i ig) =
      primary_ids ms @ primary_ids [ig ! i] @ primary_ids (take i ig) @ primary_ids (drop (Suc i) ig)"
    by (simp only: delete_at_def primary_ids_append append_assoc)
  ultimately show ?thesis
    using assms(3) by auto
qed

lemma ignore_missing_item_unique:
  "unique_ids s \<Longrightarrow> unique_ids (snd (ignore_missing_item e i s))"
  by (auto simp: ignore_missing_item_def unique_ids_def datetime_now_def Let_def trakt_of_def
      intro!: primary_ids_move)

lemma unignore_item_unique:
  "unique_ids s \<Longrightarrow> unique_ids (snd (unignore_item e i s))"
  by (auto simp: unignore_item_def unique_ids_def datetime_now_def Let_def trakt_of_def
      simp del: append_assoc intro!: primary_ids_move_back)

lemma ignore_loop_unique:
  "unique_ids s \<Longrightarrow> unique_ids (snd (ignore_loop e idxs n s))"
proof (induction idxs arbitrary: n s)
  case Nil
  then show ?case by simp
next
  case (Cons index rest)
  show ?case
  proof (cases "index < 0 \<or> index \<ge> int (length (missing_items s))")
    case True
    then show ?thesis using Cons by simp
  next
    case False
    let ?s1 = "snd (ignore_missing_item e index s)"
    have "unique_ids ?s1" using Cons.prems by (rule ignore_missing_item_unique)
    moreover have "ignore_loop e (index # rest) n s = ignore_loop e rest (Suc n) ?s1"
      using False by (simp add: ignore_missing_item_def datetime_now_def Let_def)
    ultimately show ?thesis using Cons.IH by simp
  qed
qed

lemma ignore_missing_items_unique:
  "unique_ids s \<Longrightarrow> unique_ids (snd (ignore_missing_items e idxs s))"
  using ignore_loop_unique[of s e "rev (sort idxs)" 0]
  by (auto simp: ignore_missing_items_def Let_def split: prod.splits)


lemma trakt_of_merge_into_ignored [simp]:
  "trakt_of (merge_into_ignored cn lid r) = trakt_of r"
  by (simp add: merge_into_ignored_def trakt_of_def Let_def)

lemma trakt_of_merge_into_existing [simp]:
  "trakt_of (merge_into_existing cn lid now r) = trakt_of r"
  by (simp add: merge_into_existing_def trakt_of_def Let_def)

text \<open>What the first loop of \<open>add_to_missing_items\<close> computes.\<close>

lemma update_ignored_None:
  "update_ignored tid cn lid ig = None \<longleftrightarrow> (truthy_id tid \<longrightarrow> tid \<notin> set (map trakt_of ig))"
  by (induction ig) (auto simp: Let_def trakt_of_def)

lemma update_ignored_Some_ids:
  "update_ignored tid cn lid ig = Some ig' \<Longrightarrow> map trakt_of ig' = map trakt_of ig"
  by (induction ig arbitrary: ig') (auto simp: Let_def trakt_of_def[symmetric] split: if_splits)

lemma find_existing_None:
  "find_existing tid ms = None \<longleftrightarrow> (truthy_id tid \<longrightarrow> tid \<notin> set (map trakt_of ms))"
  by (induction ms) (auto simp: Let_def trakt_of_def)

lemma find_existing_Some:
  "find_existing tid ms = Some i \<Longrightarrow> i < length ms"
  by (induction ms arbitrary: i) (auto simp: Let_def split: if_splits)

lemma primary_ids_cong: "map trakt_of xs = map trakt_of ys \<Longrightarrow> primary_ids xs = primary_ids ys"
  by (simp add: primary_ids_def)

lemma map_trakt_of_update:
  assumes "trakt_of r = trakt_of (ms ! i)"
  shows "map trakt_of (ms[i := r]) = map trakt_of ms"
proof (cases "i < length ms")
  case True
  have "(map trakt_of ms)[i := trakt_of r] = (map trakt_of ms)[i := map trakt_of ms ! i]"
    using True assms by simp
  then show ?thesis by (simp add: map_update)
next
  case False
  then show ?thesis by (simp add: list_update_beyond)
qed

lemma add_to_missing_items_unique:
  assumes "unique_ids s"
  shows "unique_ids (snd (add_to_missing_items e item_data item_type cn lid reason s))"
proof -
  let ?tid = "get_id (md_ids item_data) ''trakt''"
  show ?thesis
  proof (cases "update_ignored ?tid cn lid (ignored_items s)")
    case (Some ig')
    then have "primary_ids ig' = primary_ids (ignored_items s)"
      by (intro primary_ids_cong update_ignored_Some_ids)
    then show ?thesis using assms Some
      by (simp add: add_to_missing_items_def unique_ids_def primary_ids_append)
  next
    case None
    note ign = None
    show ?thesis
    proof (cases "find_existing ?tid (missing_items s)")
      case (Some i)
      then have "i < length (missing_items s)" by (rule find_existing_Some)
      have "primary_ids ((missing_items s)[i := merge_into_existing cn lid
              (time_at e (Suc (clock s))) (missing_items s ! i)]) = primary_ids (missing_items s)"
        by (intro primary_ids_cong map_trakt_of_update) simp
      then show ?thesis using assms Some ign
        by (simp add: add_to_missing_items_def unique_ids_def primary_ids_append datetime_now_def)
    next
      case None
      have fresh: "truthy_id ?tid \<Longrightarrow> ?tid \<notin> set (primary_ids (missing_items s))
            \<and> ?tid \<notin> set (primary_ids (ignored_items s))"
        using ign None by (auto simp: update_ignored_None find_existing_None primary_ids_def)
      show ?thesis using assms None ign fresh
        by (auto simp: add_to_missing_items_def unique_ids_def primary_ids_append datetime_now_def
            primary_ids_def trakt_of_def)
    qed
  qed
qed

lemma registry_step_unique: "registry_step e s s' \<Longrightarrow> unique_ids s \<Longrightarrow> unique_ids s'"
  by (induction rule: registry_step.induct)
    (simp_all add: add_to_missing_items_unique ignore_missing_item_unique
      ignore_missing_items_unique unignore_item_unique)

lemma registry_steps_unique: "(registry_step e)\<^sup>*\<^sup>* s s' \<Longrightarrow> unique_ids s \<Longrightarrow> unique_ids s'"
  by (induction rule: rtranclp_induct) (auto intro: registry_step_unique)

lemma update_ignored_unique:
  assumes "distinct (primary_ids ig)" and "truthy_id tid" and "tid \<in> set (map trakt_of ig)"
  shows "update_ignored tid cn lid ig =
           Some (map (\<lambda>r. if trakt_of r = tid then merge_into_ignored cn lid r else r) ig)"
  using assms
proof (induction ig)
  case Nil
  then show ?case by simp
next
  case (Cons r rest)
  show ?case
  proof (cases "trakt_of r = tid")
    case True
    then have "tid \<notin> set (map trakt_of rest)"
      using Cons.prems(1,2) by (auto simp: primary_ids_def)
    then have "map (\<lambda>r. if trakt_of r = tid then merge_into_ignored cn lid r else r) rest = rest"
      by (intro map_idI) auto
    then show ?thesis using True Cons.prems(2) by (simp add: Let_def trakt_of_def[symmetric])
  next
    case False
    then have "tid \<in> set (map trakt_of rest)" using Cons.prems(3) by auto
    moreover have "distinct (primary_ids rest)" using Cons.prems(1) by (simp add: primary_ids_def split: if_splits)
    ultimately show ?thesis using False Cons.IH Cons.prems(2)
      by (simp add: Let_def trakt_of_def[symmetric])
  qed
qed

lemma merge_into_ignored_explicit:
  "merge_into_ignored cn lid r =
     r\<lparr>mi_collections := Some
        (if cn \<in> coll_name ` set (case mi_collections r of None \<Rightarrow> [] | Some cs \<Rightarrow> cs)
         then (case mi_collections r of None \<Rightarrow> [] | Some cs \<Rightarrow> cs)
         else (case mi_collections r of None \<Rightarrow> [] | Some cs \<Rightarrow> cs)
                @ [\<lparr>coll_name = cn, coll_library_id = lid\<rparr>])\<rparr>"
proof -
  have "collection_exists cn cs \<longleftrightarrow> cn \<in> coll_name ` set cs" for cs
    by (auto simp: collection_exists_def)
  then show ?thesis by (simp add: merge_into_ignored_def Let_def)
qed

text \<open>
  Claim C7: on an Unresolved registry of five records, \<open>ignore_missing_items([0, 2, 4])\<close>
  moves exactly the records at the positions 0, 2 and 4 to the Ignored registry and
  leaves the records at 1 and 3: the indices are taken in descending order (4, 2, 0),
  so a removal never shifts a position still to come. Each moved record is stamped with
  the time of its move.
\<close>

theorem C7_bulk_ignore:
  "ignore_missing_items e [0, 2, 4] (s\<lparr>missing_items := [r0, r1, r2, r3, r4]\<rparr>) =
     (True, s\<lparr>missing_items := [r1, r3],
              ignored_items := ignored_items s @
                [r4\<lparr>mi_ignored_on := Some (time_at e (clock s))\<rparr>,
                 r2\<lparr>mi_ignored_on := Some (time_at e (clock s + 1))\<rparr>,
                 r0\<lparr>mi_ignored_on := Some (time_at e (clock s + 2))\<rparr>],
              clock := clock s + 3\<rparr>)"
  by (simp add: ignore_missing_items_def datetime_now_def delete_at_def)

text \<open>
  Claim C8: ignoring the Unresolved record at a valid index and then unignoring it (it
  is the last Ignored record) succeeds twice; the record is in the Unresolved registry
  again, now at the end, with \<open>ignored_on\<close> absent and \<open>last_checked\<close> set to the time of the
  second call, and the Ignored registry is what it was before.
\<close>

theorem C8_ignore_unignore:
  assumes "0 \<le> i" and "i < int (length (missing_items s))"
  shows "(case ignore_missing_item e i s of
            (ok1, s1) \<Rightarrow>
              (case unignore_item e (int (length (ignored_items s))) s1 of
                 (ok2, s2) \<Rightarrow>
                   ok1 \<and> ok2 \<and>
                   missing_items s2 =
                     delete_at (nat i) (missing_items s) @
                       [(missing_items s ! nat i)\<lparr>mi_ignored_on := None,
                          mi_last_checked := time_at e (clock s + 1)\<rparr>] \<and>
                   ignored_items s2 = ignored_items s))"
  using assms
  by (simp add: ignore_missing_item_def unignore_item_def datetime_now_def Let_def delete_at_def
      nth_append)

text \<open>Claim C8 at a registry of two unresolved records and one ignored record.\<close>

theorem C8_ignore_unignore_witness:
  "missing_items (snd (unignore_item demo_env 1 (snd (ignore_missing_item demo_env 1 two_records))))
     = [demo_record 1 ''Alien'',
        (demo_record 2 ''Brazil'')\<lparr>mi_ignored_on := None,
           mi_last_checked := ''2024-01-01T00:00:01''\<rparr>]
   \<and> ignored_items (snd (unignore_item demo_env 1 (snd (ignore_missing_item demo_env 1 two_records))))
     = [demo_record 3 ''Casablanca'']"
proof -
  have h1: "(0::int) \<le> 1" by simp
  have h2: "(1::int) < int (length (missing_items two_records))"
    by (simp add: two_records_def empty_state_def)
  show ?thesis
    using C8_ignore_unignore[OF h1 h2, of demo_env]
    by (simp add: two_records_def empty_state_def demo_env_def delete_at_def show_nat.simps
        digit_char_def split: prod.splits)
qed

text \<open>
  Claim C6 says that the exclusivity invariant holds in every state reachable, by the
  registry operations, from a state that satisfies it. It does not: \<open>ignore_missing_item\<close>
  moves one record and leaves a second unresolved record of the same Trakt id where it
  is.
\<close>

theorem C6_not_inductive_counterexample:
  "exclusive duplicate_state
   \<and> registry_step demo_env duplicate_state (snd (ignore_missing_item demo_env 0 duplicate_state))
   \<and> \<not> exclusive (snd (ignore_missing_item demo_env 0 duplicate_state))"
proof -
  have "exclusive duplicate_state"
    by (simp add: exclusive_def duplicate_state_def empty_state_def primary_ids_def)
  moreover have "\<not> exclusive (snd (ignore_missing_item demo_env 0 duplicate_state))"
    by (simp add: exclusive_def duplicate_state_def empty_state_def primary_ids_def
        ignore_missing_item_def datetime_now_def delete_at_def trakt_of_def get_id_def demo_record_def)
  ultimately show ?thesis by (simp add: step_ignore)
qed

text \<open>
  Claim C6, amended: in every state reachable by \<open>add_to_missing_items\<close>,
  \<open>ignore_missing_item\<close>, \<open>ignore_missing_items\<close> and \<open>unignore_item\<close> from a state in which
  no Trakt id identifies two records of the two registries taken together (the empty
  registries, for one), that still holds, and so no Trakt id identifies a record in
  both registries. There, \<open>add_to_missing_items\<close> for an entry whose Trakt id is in the
  Ignored registry returns \<open>False\<close>, leaves the Unresolved registry as it is, and changes
  the Ignored registry only in the memberships of the record of that id: where a
  membership of the collection's name is there, the list is left as it is (a missing
  list reads as the empty one), and otherwise the membership, name and library id, is
  appended to it.
\<close>

theorem C6_registries_exclusive:
  assumes "unique_ids s" and "(registry_step e)\<^sup>*\<^sup>* s s'"
  shows "unique_ids s' \<and> exclusive s' \<and>
    (truthy_id (get_id (md_ids item_data) ''trakt'')
       \<and> get_id (md_ids item_data) ''trakt'' \<in> set (map trakt_of (ignored_items s')) \<longrightarrow>
       (case add_to_missing_items e item_data item_type cn lid reason s' of
          (added, s'') \<Rightarrow>
            \<not> added \<and> missing_items s'' = missing_items s' \<and>
            ignored_items s'' =
              map (\<lambda>r. if trakt_of r = get_id (md_ids item_data) ''trakt''
                        then r\<lparr>mi_collections := Some
                               (if cn \<in> coll_name `
                                     set (case mi_collections r of None \<Rightarrow> [] | Some cs \<Rightarrow> cs)
                                then (case mi_collections r of None \<Rightarrow> [] | Some cs \<Rightarrow> cs)
                                else (case mi_collections r of None \<Rightarrow> [] | Some cs \<Rightarrow> cs)
                                       @ [\<lparr>coll_name = cn, coll_library_id = lid\<rparr>])\<rparr>
                        else r) (ignored_items s') \<and>
            (\<forall>r \<in> set (ignored_items s'').
               trakt_of r = get_id (md_ids item_data) ''trakt'' \<longrightarrow>
               (\<exists>cs. mi_collections r = Some cs \<and> cn \<in> coll_name ` set cs))))"
proof -
  have u: "unique_ids s'" using assms(2,1) by (rule registry_steps_unique)
  then have d: "distinct (primary_ids (ignored_items s'))"
    by (simp add: unique_ids_def primary_ids_append)
  let ?tid = "get_id (md_ids item_data) ''trakt''"
  let ?merged = "\<lambda>r. r\<lparr>mi_collections := Some
        (if cn \<in> coll_name ` set (case mi_collections r of None \<Rightarrow> [] | Some cs \<Rightarrow> cs)
         then (case mi_collections r of None \<Rightarrow> [] | Some cs \<Rightarrow> cs)
         else (case mi_collections r of None \<Rightarrow> [] | Some cs \<Rightarrow> cs)
                @ [\<lparr>coll_name = cn, coll_library_id = lid\<rparr>])\<rparr>"
  have named: "\<exists>cs. mi_collections (?merged r) = Some cs \<and> cn \<in> coll_name ` set cs" for r
    by simp
  have tr: "trakt_of (?merged r) = trakt_of r" for r
    by (simp add: trakt_of_def)
  show ?thesis
  proof (intro conjI impI)
    show "unique_ids s'" by (rule u)
    show "exclusive s'" using u by (rule unique_imp_exclusive)
  next
    assume "truthy_id ?tid \<and> ?tid \<in> set (map trakt_of (ignored_items s'))"
    then have "update_ignored ?tid cn lid (ignored_items s') =
        Some (map (\<lambda>r. if trakt_of r = ?tid then merge_into_ignored cn lid r else r) (ignored_items s'))"
      using d by (intro update_ignored_unique) simp_all
    then have upd: "update_ignored ?tid cn lid (ignored_items s') =
        Some (map (\<lambda>r. if trakt_of r = ?tid then ?merged r else r) (ignored_items s'))"
      by (simp only: merge_into_ignored_explicit)
    have all: "\<forall>r \<in> set (map (\<lambda>r. if trakt_of r = ?tid then ?merged r else r) (ignored_items s')).
        trakt_of r = ?tid \<longrightarrow> (\<exists>cs. mi_collections r = Some cs \<and> cn \<in> coll_name ` set cs)"
    proof
      fix r'
      assume "r' \<in> set (map (\<lambda>r. if trakt_of r = ?tid then ?merged r else r) (ignored_items s'))"
      then have "r' \<in> (\<lambda>r. if trakt_of r = ?tid then ?merged r else r) ` set (ignored_items s')"
        by (simp only: set_map)
      then obtain r where r': "r' = (if trakt_of r = ?tid then ?merged r else r)" by blast
      show "trakt_of r' = ?tid \<longrightarrow> (\<exists>cs. mi_collections r' = Some cs \<and> cn \<in> coll_name ` set cs)"
      proof (cases "trakt_of r = ?tid")
        case True
        then have "r' = ?merged r" using r' by simp
        then show ?thesis using named[of r] by simp
      next
        case False
        then show ?thesis using r' by simp
      qed
    qed
    show "case add_to_missing_items e item_data item_type cn lid reason s' of
          (added, s'') \<Rightarrow>
            \<not> added \<and> missing_items s'' = missing_items s' \<and>
            ignored_items s'' =
              map (\<lambda>r. if trakt_of r = ?tid then ?merged r else r) (ignored_items s') \<and>
            (\<forall>r \<in> set (ignored_items s'').
               trakt_of r = ?tid \<longrightarrow> (\<exists>cs. mi_collections r = Some cs \<and> cn \<in> coll_name ` set cs))"
      using all by (simp add: add_to_missing_items_def upd)
  qed
qed

text \<open>Claim C6 from the empty registries: an entry is added for the collection
  \<open>Favorites\<close> and ignored; met again in the list \<open>Top 10\<close> it gains that membership, and
  met again in \<open>Favorites\<close>, under another library id, its memberships stay as they are.\<close>

theorem C6_registries_exclusive_witness:
  "unique_ids empty_state \<and> (registry_step demo_env)\<^sup>*\<^sup>* empty_state ignored_once
   \<and> exclusive ignored_once
   \<and> missing_items (snd (add_to_missing_items demo_env demo_media ''movie'' (Some ''Top 10'')
        (Some ''lib1'') ''No matching IDs found in Emby library'' ignored_once)) = []
   \<and> map mi_collections (ignored_items (snd (add_to_missing_items demo_env demo_media ''movie''
        (Some ''Top 10'') (Some ''lib1'') ''No matching IDs found in Emby library'' ignored_once)))
      = [Some [\<lparr>coll_name = Some ''Favorites'', coll_library_id = Some ''lib1''\<rparr>,
               \<lparr>coll_name = Some ''Top 10'', coll_library_id = Some ''lib1''\<rparr>]]
   \<and> map mi_collections (ignored_items (snd (add_to_missing_items demo_env demo_media ''movie''
        (Some ''Favorites'') (Some ''lib2'') ''No matching IDs found in Emby library'' ignored_once)))
      = [Some [\<lparr>coll_name = Some ''Favorites'', coll_library_id = Some ''lib1''\<rparr>]]"
proof -
  have h1: "unique_ids empty_state"
    by (simp add: unique_ids_def empty_state_def primary_ids_def)
  have h2: "(registry_step demo_env)\<^sup>*\<^sup>* empty_state ignored_once"
  proof -
    have "registry_step demo_env empty_state
        (snd (add_to_missing_items demo_env demo_media ''movie'' (Some ''Favorites'') (Some ''lib1'')
              ''No matching IDs found in Emby library'' empty_state))"
      by (rule step_add)
    moreover have "registry_step demo_env
        (snd (add_to_missing_items demo_env demo_media ''movie'' (Some ''Favorites'') (Some ''lib1'')
              ''No matching IDs found in Emby library'' empty_state)) ignored_once"
      unfolding ignored_once_def by (rule step_ignore)
    ultimately show ?thesis by simp
  qed
  have eval: "ignored_once = empty_state\<lparr>clock := 2, ignored_items :=
      [\<lparr>mi_title = ''Inception'', mi_year = Some 2010,
        mi_ids = [(''trakt'', IdInt 16662), (''imdb'', IdStr ''tt1375666'')], mi_type = ''movie'',
        mi_reason = ''No matching IDs found in Emby library'',
        mi_last_checked = ''2024-01-01T00:00:00'',
        mi_collections = Some [\<lparr>coll_name = Some ''Favorites'', coll_library_id = Some ''lib1''\<rparr>],
        mi_collection_name = None, mi_library_id = None,
        mi_ignored_on = Some ''2024-01-01T00:00:01'', mi_trakt_ids = None\<rparr>]\<rparr>"
    by (simp add: ignored_once_def add_to_missing_items_def ignore_missing_item_def empty_state_def
        demo_media_def demo_env_def datetime_now_def delete_at_def get_id_def show_nat.simps
        digit_char_def)
  have h3: "truthy_id (get_id (md_ids demo_media) ''trakt'')
      \<and> get_id (md_ids demo_media) ''trakt'' \<in> set (map trakt_of (ignored_items ignored_once))"
    by (simp add: eval demo_media_def get_id_def trakt_of_def empty_state_def)
  let ?r = "add_to_missing_items demo_env demo_media ''movie'' (Some ''Top 10'') (Some ''lib1'')
      ''No matching IDs found in Emby library'' ignored_once"
  let ?q = "add_to_missing_items demo_env demo_media ''movie'' (Some ''Favorites'') (Some ''lib2'')
      ''No matching IDs found in Emby library'' ignored_once"
  note inst = C6_registries_exclusive[OF h1 h2, where item_data = demo_media
      and cn = "Some ''Top 10''" and lid = "Some ''lib1''" and item_type = "''movie''"
      and reason = "''No matching IDs found in Emby library''"]
  note inst2 = C6_registries_exclusive[OF h1 h2, where item_data = demo_media
      and cn = "Some ''Favorites''" and lid = "Some ''lib2''" and item_type = "''movie''"
      and reason = "''No matching IDs found in Emby library''"]
  have ex: "exclusive ignored_once" using inst by simp
  have m: "missing_items (snd ?r) = missing_items ignored_once"
    using inst h3 by (simp split: prod.splits)
  have i: "ignored_items (snd ?r) =
       map (\<lambda>r. if trakt_of r = get_id (md_ids demo_media) ''trakt''
                 then r\<lparr>mi_collections := Some
                        (if Some ''Top 10'' \<in> coll_name `
                              set (case mi_collections r of None \<Rightarrow> [] | Some cs \<Rightarrow> cs)
                         then (case mi_collections r of None \<Rightarrow> [] | Some cs \<Rightarrow> cs)
                         else (case mi_collections r of None \<Rightarrow> [] | Some cs \<Rightarrow> cs)
                                @ [\<lparr>coll_name = Some ''Top 10'', coll_library_id = Some ''lib1''\<rparr>])\<rparr>
                 else r) (ignored_items ignored_once)"
    using inst h3 by (simp split: prod.splits)
  have j: "ignored_items (snd ?q) =
       map (\<lambda>r. if trakt_of r = get_id (md_ids demo_media) ''trakt''
                 then r\<lparr>mi_collections := Some
                        (if Some ''Favorites'' \<in> coll_name `
                              set (case mi_collections r of None \<Rightarrow> [] | Some cs \<Rightarrow> cs)
                         then (case mi_collections r of None \<Rightarrow> [] | Some cs \<Rightarrow> cs)
                         else (case mi_collections r of None \<Rightarrow> [] | Some cs \<Rightarrow> cs)
                                @ [\<lparr>coll_name = Some ''Favorites'', coll_library_id = Some ''lib2''\<rparr>])\<rparr>
                 else r) (ignored_items ignored_once)"
    using inst2 h3 by (simp split: prod.splits)
  have "missing_items (snd ?r) = []"
    unfolding m by (simp add: eval empty_state_def)
  moreover have "map mi_collections (ignored_items (snd ?r)) =
      [Some [\<lparr>coll_name = Some ''Favorites'', coll_library_id = Some ''lib1''\<rparr>,
             \<lparr>coll_name = Some ''Top 10'', coll_library_id = Some ''lib1''\<rparr>]]"
    unfolding i
    by (simp add: eval empty_state_def demo_media_def get_id_def trakt_of_def)
  moreover have "map mi_collections (ignored_items (snd ?q)) =
      [Some [\<lparr>coll_name = Some ''Favorites'', coll_library_id = Some ''lib1''\<rparr>]]"
    unfolding j
    by (simp add: eval empty_state_def demo_media_def get_id_def trakt_of_def)
  ultimately show ?thesis using h1 h2 ex by simp
qed

section \<open>Properties of the search\<close>

lemma fuzzy_loop_result:
  "fuzzy_loop nt year items (bm, bs) = (Some it, sc) \<Longrightarrow>
     bm = Some it \<or> (it \<in> set items \<and> \<not> year_too_far year (item_ProductionYear it))"
proof (induction items arbitrary: bm bs)
  case Nil
  then show ?case by simp
next
  case (Cons item rest)
  show ?case
  proof (cases "year_too_far year (item_ProductionYear item)")
    case True
    then have "fuzzy_loop nt year rest (bm, bs) = (Some it, sc)" using Cons.prems by simp
    then show ?thesis using Cons.IH by fastforce
  next
    case False
    show ?thesis
    proof (cases "nt = normalize_title (item_Name item)")
      case True
      then show ?thesis using False Cons.prems by simp
    next
      case ne: False
      from Cons.prems False ne obtain bm' bs' where
        rec: "fuzzy_loop nt year rest (bm', bs') = (Some it, sc)" and
        bm': "bm' = bm \<or> bm' = Some item"
        by (auto simp: Let_def split: if_splits)
      from Cons.IH[OF rec] bm' False show ?thesis by auto
    qed
  qed
qed

lemma fuzzy_title_match_window:
  assumes "fuzzy_title_match title year library_items = Some item"
  shows "item \<in> set library_items \<and> \<not> year_too_far year (item_ProductionYear item)"
proof -
  obtain sc where "fuzzy_loop (normalize_title title) year library_items (None, 0) = (Some item, sc)"
    using assms by (auto simp: fuzzy_title_match_def split: prod.splits if_splits)
  then show ?thesis using fuzzy_loop_result by fastforce
qed

lemma not_too_far_window:
  "y \<noteq> 0 \<Longrightarrow> \<not> year_too_far (Some y) (item_ProductionYear item) \<Longrightarrow> in_year_window y item"
  by (auto simp: year_too_far_def in_year_window_def split: option.splits)

lemma return_match_fst: "fst (return_match e trakt_id item_type title item s) = Inr (item_Id item)"
  by (simp add: return_match_def split: option.splits)

lemma normalize_dune: "normalize_title ''Dune'' = ''dune''"
  by (simp add: normalize_defs)

lemma dune_cache:
  "get_emby_library_items demo_env kind (Some ''lib1'') False (cached_state (kind @ ''_lib1'') items)
     = (Inr items, cached_state (kind @ ''_lib1'') items)"
  by (simp add: get_emby_library_items_def cached_state_def str_opt_def)

lemma fuzzy_dune_2021:
  "fuzzy_title_match ''Dune'' (Some 2021) [dune_1984, dune_2021] = Some dune_2021"
  by (simp add: fuzzy_title_match_def dune_1984_def dune_2021_def year_too_far_def normalize_dune)

text \<open>
  Claim C1: for every entry with a year \<open>Y\<close> and every library item with a production year
  more than one year from \<open>Y\<close>, the fuzzy fallback does not accept that item, whatever the
  titles are. A year is one that the guard of the loop, \<open>year and item_year\<close>, counts as
  there, so one other than 0. The item the fallback accepts is a library item whose
  production year is missing or within one year of \<open>Y\<close>; and when the stored mapping and
  the id steps of \<open>search_movie_in_emby\<close> (IMDB, TMDB) or of \<open>search_tv_show_in_emby\<close> (TVDB,
  TMDB, IMDB) find nothing, an id the function returns is the \<open>Id\<close> of such an item.
\<close>

theorem C1_year_window:
  assumes "y \<noteq> 0"
  shows
   "(fuzzy_title_match title (Some y) library_items = Some item
     \<longrightarrow> item \<in> set library_items \<and> in_year_window y item)
  \<and> (stored_mapping s ''movie'' (get_id provider_ids ''trakt'') = None \<and>
     get_emby_library_items e ''Movie'' library_id False s = (Inr library_items, s1) \<and>
     when_truthy (get_id provider_ids ''imdb'') (\<lambda>i. find_by_imdb i library_items) = None \<and>
     when_truthy (get_id provider_ids ''tmdb'') (\<lambda>i. find_by_provider ''Tmdb'' i library_items) = None \<and>
     fst (search_movie_in_emby e title (Some y) provider_ids library_id s) = Inr (Some emby_id)
     \<longrightarrow> (\<exists>item \<in> set library_items. item_Id item = Some emby_id \<and> in_year_window y item))
  \<and> (stored_mapping s ''show'' (get_id provider_ids ''trakt'') = None \<and>
     get_emby_library_items e ''Series'' library_id False s = (Inr library_items, s1) \<and>
     when_truthy (get_id provider_ids ''tvdb'') (\<lambda>i. find_by_provider ''Tvdb'' i library_items) = None \<and>
     when_truthy (get_id provider_ids ''tmdb'') (\<lambda>i. find_by_provider ''Tmdb'' i library_items) = None \<and>
     when_truthy (get_id provider_ids ''imdb'') (\<lambda>i. find_by_imdb i library_items) = None \<and>
     fst (search_tv_show_in_emby e title (Some y) provider_ids library_id s) = Inr (Some emby_id)
     \<longrightarrow> (\<exists>item \<in> set library_items. item_Id item = Some emby_id \<and> in_year_window y item))
  \<and> (item_ProductionYear item = Some iy \<and> iy \<noteq> 0 \<and> \<bar>iy - y\<bar> > 1
     \<longrightarrow> fuzzy_title_match title (Some y) library_items \<noteq> Some item)"
proof (intro conjI impI)
  assume "fuzzy_title_match title (Some y) library_items = Some item"
  from fuzzy_title_match_window[OF this] assms
  show "item \<in> set library_items" and "in_year_window y item"
    by (auto intro: not_too_far_window)
next
  assume far: "item_ProductionYear item = Some iy \<and> iy \<noteq> 0 \<and> \<bar>iy - y\<bar> > 1"
  show "fuzzy_title_match title (Some y) library_items \<noteq> Some item"
  proof
    assume "fuzzy_title_match title (Some y) library_items = Some item"
    then have "\<not> year_too_far (Some y) (item_ProductionYear item)"
      using fuzzy_title_match_window by blast
    then show False using far assms by (simp add: year_too_far_def abs_minus_commute)
  qed
next
  assume h: "stored_mapping s ''movie'' (get_id provider_ids ''trakt'') = None \<and>
     get_emby_library_items e ''Movie'' library_id False s = (Inr library_items, s1) \<and>
     when_truthy (get_id provider_ids ''imdb'') (\<lambda>i. find_by_imdb i library_items) = None \<and>
     when_truthy (get_id provider_ids ''tmdb'') (\<lambda>i. find_by_provider ''Tmdb'' i library_items) = None \<and>
     fst (search_movie_in_emby e title (Some y) provider_ids library_id s) = Inr (Some emby_id)"
  then obtain item where m: "fuzzy_title_match title (Some y) library_items = Some item"
    and i: "item_Id item = Some emby_id"
    by (auto simp: search_movie_in_emby_def Let_def return_match_fst split: if_splits option.splits)
  from fuzzy_title_match_window[OF m] assms i
  show "\<exists>item \<in> set library_items. item_Id item = Some emby_id \<and> in_year_window y item"
    by (auto intro: not_too_far_window)
next
  assume h: "stored_mapping s ''show'' (get_id provider_ids ''trakt'') = None \<and>
     get_emby_library_items e ''Series'' library_id False s = (Inr library_items, s1) \<and>
     when_truthy (get_id provider_ids ''tvdb'') (\<lambda>i. find_by_provider ''Tvdb'' i library_items) = None \<and>
     when_truthy (get_id provider_ids ''tmdb'') (\<lambda>i. find_by_provider ''Tmdb'' i library_items) = None \<and>
     when_truthy (get_id provider_ids ''imdb'') (\<lambda>i. find_by_imdb i library_items) = None \<and>
     fst (search_tv_show_in_emby e title (Some y) provider_ids library_id s) = Inr (Some emby_id)"
  then obtain item where m: "fuzzy_title_match title (Some y) library_items = Some item"
    and i: "item_Id item = Some emby_id"
    by (auto simp: search_tv_show_in_emby_def Let_def return_match_fst split: if_splits option.splits)
  from fuzzy_title_match_window[OF m] assms i
  show "\<exists>item \<in> set library_items. item_Id item = Some emby_id \<and> in_year_window y item"
    by (auto intro: not_too_far_window)
qed

text \<open>Claim C1 at the entry \<open>Dune\<close> (2021) and a library with the \<open>Dune\<close> of 1984 and the
  \<open>Dune\<close> of 2021: the title path returns the second and not the first, though both titles
  are equal to the entry's.\<close>

theorem C1_year_window_witness:
  "fst (search_movie_in_emby demo_env ''Dune'' (Some 2021) [(''slug'', IdStr ''dune-2021'')]
         (Some ''lib1'') (cached_state ''Movie_lib1'' [dune_1984, dune_2021])) = Inr (Some ''e2021'')
   \<and> fst (search_tv_show_in_emby demo_env ''Dune'' (Some 2021) [(''slug'', IdStr ''dune-2021'')]
         (Some ''lib1'') (cached_state ''Series_lib1'' [dune_1984, dune_2021])) = Inr (Some ''e2021'')
   \<and> in_year_window 2021 dune_2021 \<and> \<not> in_year_window 2021 dune_1984
   \<and> fuzzy_title_match ''Dune'' (Some 2021) [dune_1984, dune_2021] \<noteq> Some dune_1984"
proof -
  let ?ids = "[(''slug'', IdStr ''dune-2021'')]"
  let ?lib = "[dune_1984, dune_2021]"
  have y: "(2021::int) \<noteq> 0" by simp
  note inst = C1_year_window[OF y, of "''Dune''" ?lib dune_2021 _ ?ids demo_env "Some ''lib1''"]
  have w: "in_year_window 2021 dune_2021"
    using inst fuzzy_dune_2021 by simp
  have movie: "fst (search_movie_in_emby demo_env ''Dune'' (Some 2021) ?ids (Some ''lib1'')
         (cached_state ''Movie_lib1'' ?lib)) = Inr (Some ''e2021'')"
    using dune_cache[of "''Movie''" ?lib]
    by (simp add: search_movie_in_emby_def stored_mapping_def when_truthy_def get_id_def
        fuzzy_dune_2021 return_match_def) (simp add: dune_2021_def)
  have tv: "fst (search_tv_show_in_emby demo_env ''Dune'' (Some 2021) ?ids (Some ''lib1'')
         (cached_state ''Series_lib1'' ?lib)) = Inr (Some ''e2021'')"
    using dune_cache[of "''Series''" ?lib]
    by (simp add: search_tv_show_in_emby_def stored_mapping_def when_truthy_def get_id_def
        fuzzy_dune_2021 return_match_def) (simp add: dune_2021_def)
  have far: "item_ProductionYear dune_1984 = Some 1984 \<and> (1984::int) \<noteq> 0
      \<and> \<bar>1984 - 2021\<bar> > (1::int)"
    by (simp add: dune_1984_def)
  have no: "fuzzy_title_match ''Dune'' (Some 2021) ?lib \<noteq> Some dune_1984"
    using C1_year_window[OF y, where title = "''Dune''" and library_items = ?lib
        and item = dune_1984 and iy = 1984] far
    by simp
  have "\<not> in_year_window 2021 dune_1984"
    by (simp add: in_year_window_def dune_1984_def)
  then show ?thesis using w movie tv no by simp
qed

section \<open>The order of the matching steps\<close>

lemma tmdb_lookup_add:
  "tmdb_lookup (add_to_lookups l x) = add_plain (tmdb_of x) (item_Id x) (tmdb_lookup l)"
  by (simp add: add_to_lookups_def tmdb_of_def Let_def)

lemma tmdb_lookup_foldl:
  assumes "k \<noteq> []" and "\<forall>x\<in>set lib. tmdb_of x = k \<longrightarrow> x = A"
  shows "tmdb_lookup (foldl add_to_lookups l0 lib) k =
           (if A \<in> set lib \<and> tmdb_of A = k then Some (item_Id A) else tmdb_lookup l0 k)"
  using assms(2)
proof (induction lib arbitrary: l0)
  case Nil
  then show ?case by simp
next
  case (Cons x xs)
  have "tmdb_lookup (foldl add_to_lookups (add_to_lookups l0 x) xs) k =
          (if A \<in> set xs \<and> tmdb_of A = k then Some (item_Id A)
           else tmdb_lookup (add_to_lookups l0 x) k)"
    using Cons.prems by (intro Cons.IH) simp
  moreover have "tmdb_lookup (add_to_lookups l0 x) k =
      (if tmdb_of x = k then Some (item_Id x) else tmdb_lookup l0 k)"
    using assms(1) by (auto simp: tmdb_lookup_add add_plain_def)
  moreover have "tmdb_of x = k \<Longrightarrow> x = A" using Cons.prems by simp
  ultimately show ?case by auto
qed

lemma find_by_provider_unique:
  assumes "A \<in> set lib" and "tmdb_of A = k" and "k \<noteq> []"
    and "\<forall>x\<in>set lib. tmdb_of x = k \<longrightarrow> x = A"
  shows "find_by_provider ''Tmdb'' (IdStr k) lib = Some A"
  using assms(1,4)
proof (induction lib)
  case Nil
  then show ?case by simp
next
  case (Cons x xs)
  show ?case
  proof (cases "tmdb_of x = k")
    case True
    then have "x = A" using Cons.prems by simp
    then show ?thesis using True assms(3) by (simp add: tmdb_of_def Let_def)
  next
    case False
    then have "A \<in> set xs" using Cons.prems assms(2) by auto
    then show ?thesis using False Cons by (simp add: tmdb_of_def Let_def)
  qed
qed

lemma str_id_Some_truthy: "str_id v = Some k \<Longrightarrow> truthy_id v"
  by (auto simp: str_id_def when_truthy_def split: option.splits if_splits)

lemma truthy_id_get_nonempty: "truthy_id (get_id ids key) \<Longrightarrow> ids \<noteq> []"
  by (auto simp: get_id_def)

lemma search_movie_tmdb:
  assumes "A \<in> set library_items" and "tmdb_of A = k" and "k \<noteq> []"
    and "\<forall>x\<in>set library_items. tmdb_of x = k \<longrightarrow> x = A"
    and tm: "get_id provider_ids ''tmdb'' = Some (IdStr k)"
    and st: "stored_mapping s ''movie'' (get_id provider_ids ''trakt'') = None"
    and lib: "get_emby_library_items e ''Movie'' library_id False s = (Inr library_items, s1)"
    and im: "when_truthy (get_id provider_ids ''imdb'') (\<lambda>i. find_by_imdb i library_items) = None"
  shows "fst (search_movie_in_emby e title year provider_ids library_id s) = Inr (item_Id A)"
proof -
  have ne: "provider_ids \<noteq> []" using tm by (auto simp: get_id_def)
  have "find_by_provider ''Tmdb'' (IdStr k) library_items = Some A"
    using assms(1-4) by (rule find_by_provider_unique)
  then have tmf: "when_truthy (get_id provider_ids ''tmdb'')
      (\<lambda>i. find_by_provider ''Tmdb'' i library_items) = Some A"
    using tm assms(3) by (simp add: when_truthy_def)
  show ?thesis
    unfolding search_movie_in_emby_def Let_def
    by (simp only: ne if_False st lib im tmf option.case prod.case sum.case return_match_fst)
qed

lemma process_item_tmdb:
  assumes "A \<in> set library_items" and "tmdb_of A = k" and "k \<noteq> []"
    and "\<forall>x\<in>set library_items. tmdb_of x = k \<longrightarrow> x = A"
    and tm: "str_id (get_id (md_ids (media_of item)) ''tmdb'') = Some k"
    and im: "imdb_of (md_ids (media_of item)) = Inr imdb_id"
    and st: "stored_emby_id s (if ti_type item = ''movie'' then ''movie'' else ''show'')
       (str_id (get_id (md_ids (media_of item)) ''trakt'')) = None"
    and lib: "get_emby_library_items e (if ti_type item = ''movie'' then ''Movie'' else ''Series'')
       library_id False s = (Inr library_items, s1)"
    and h1: "hit (imdb_lookup (build_lookups library_items)) (with_tt imdb_id) = None"
    and h2: "hit (imdb_lookup (build_lookups library_items)) (without_tt imdb_id) = None"
    and h3: "hit (path_imdb_lookup (build_lookups library_items)) (with_tt imdb_id) = None"
    and id: "item_Id A = Some emby_id" and ne: "emby_id \<noteq> []"
  shows "fst (process_item e item library_id collection_name s) = Inr (Some (emby_id, ti_type item))"
proof -
  let ?ids = "md_ids (media_of item)"
  let ?L = "build_lookups library_items"
  have t: "truthy_id (get_id ?ids ''tmdb'')" using tm by (rule str_id_Some_truthy)
  then have nonempty: "?ids \<noteq> []" by (rule truthy_id_get_nonempty)
  have usable: "\<not> (?ids = [] \<or> \<not> (truthy_id (get_id ?ids ''imdb'') \<or> truthy_id (get_id ?ids ''tmdb'')
                              \<or> truthy_id (get_id ?ids ''trakt'')))"
    using t nonempty by simp
  have "tmdb_lookup (foldl add_to_lookups empty_lookups library_items) k =
          (if A \<in> set library_items \<and> tmdb_of A = k then Some (item_Id A)
           else tmdb_lookup empty_lookups k)"
    using assms(3,4) by (rule tmdb_lookup_foldl)
  then have "tmdb_lookup ?L k = Some (Some emby_id)"
    using assms(1,2) id by (simp only: build_lookups_def simp_thms if_True)
  then have "hit (tmdb_lookup ?L) (Some k) = Some (Some emby_id)"
    using assms(3) by (simp add: hit_def)
  then have "match_ids ?L imdb_id (Some k) tvdb_id (ti_type item) = Some emby_id" for tvdb_id
    using h1 h2 h3 by (simp add: match_ids_def)
  then have ml: "match_library library_items title' year' imdb_id (Some k) tvdb_id (ti_type item)
      = Some emby_id" for title' year' tvdb_id
    using ne by (simp add: match_library_def)
  show ?thesis
    unfolding process_item_def Let_def
    by (simp only: usable if_False im tm st lib ml ne sum.case option.case prod.case
        not_False_eq_True if_True fst_conv)
qed

lemma tmdb_of_blade_runner: "tmdb_of blade_runner = ''335984''"
  by (simp add: tmdb_of_def blade_runner_def get_str_def strip_def is_space_def)

lemma tmdb_of_dune_2021: "tmdb_of dune_2021 = []"
  by (simp add: tmdb_of_def dune_2021_def get_str_def strip_def)

lemma show_int_335984: "show_int 335984 = ''335984''"
  by (simp add: show_int_def show_nat.simps digit_char_def)

lemma dune_entry_ids:
  "md_ids (media_of dune_entry) = [(''trakt'', IdInt 99), (''tmdb'', IdInt 335984)]"
  by (simp add: media_of_def dune_entry_def)

text \<open>
  Claim C2: where exactly one library item \<open>A\<close> carries the entry's TMDB id, no mapping
  is stored for the entry and no item is found by the entry's IMDB id, resolution
  returns \<open>A\<close>, whatever the titles and years of the other items are: \<open>search_movie_in_emby\<close>
  returns the \<open>Id\<close> of \<open>A\<close> (it compares the entry's TMDB id as a string), and \<open>process_item\<close>
  returns the \<open>Id\<close> of \<open>A\<close>, which is not empty, with the entry's type. The title step is
  reached only when the id steps find nothing.
\<close>

theorem C2_secondary_id_first:
  assumes "A \<in> set library_items" and "tmdb_of A = k" and "k \<noteq> []"
    and "\<forall>x\<in>set library_items. tmdb_of x = k \<longrightarrow> x = A"
  shows
   "(get_id provider_ids ''tmdb'' = Some (IdStr k) \<and>
     stored_mapping s ''movie'' (get_id provider_ids ''trakt'') = None \<and>
     get_emby_library_items e ''Movie'' library_id False s = (Inr library_items, s1) \<and>
     when_truthy (get_id provider_ids ''imdb'') (\<lambda>i. find_by_imdb i library_items) = None
     \<longrightarrow> fst (search_movie_in_emby e title year provider_ids library_id s) = Inr (item_Id A))
  \<and> (str_id (get_id (md_ids (media_of item)) ''tmdb'') = Some k \<and>
     imdb_of (md_ids (media_of item)) = Inr imdb_id \<and>
     stored_emby_id s (if ti_type item = ''movie'' then ''movie'' else ''show'')
       (str_id (get_id (md_ids (media_of item)) ''trakt'')) = None \<and>
     get_emby_library_items e (if ti_type item = ''movie'' then ''Movie'' else ''Series'')
       library_id False s = (Inr library_items, s1) \<and>
     hit (imdb_lookup (build_lookups library_items)) (with_tt imdb_id) = None \<and>
     hit (imdb_lookup (build_lookups library_items)) (without_tt imdb_id) = None \<and>
     hit (path_imdb_lookup (build_lookups library_items)) (with_tt imdb_id) = None \<and>
     item_Id A = Some emby_id \<and> emby_id \<noteq> []
     \<longrightarrow> fst (process_item e item library_id collection_name s)
           = Inr (Some (emby_id, ti_type item)))"
proof (intro conjI impI)
  assume "get_id provider_ids ''tmdb'' = Some (IdStr k) \<and>
     stored_mapping s ''movie'' (get_id provider_ids ''trakt'') = None \<and>
     get_emby_library_items e ''Movie'' library_id False s = (Inr library_items, s1) \<and>
     when_truthy (get_id provider_ids ''imdb'') (\<lambda>i. find_by_imdb i library_items) = None"
  then show "fst (search_movie_in_emby e title year provider_ids library_id s) = Inr (item_Id A)"
    using assms by (intro search_movie_tmdb) blast+
next
  assume "str_id (get_id (md_ids (media_of item)) ''tmdb'') = Some k \<and>
     imdb_of (md_ids (media_of item)) = Inr imdb_id \<and>
     stored_emby_id s (if ti_type item = ''movie'' then ''movie'' else ''show'')
       (str_id (get_id (md_ids (media_of item)) ''trakt'')) = None \<and>
     get_emby_library_items e (if ti_type item = ''movie'' then ''Movie'' else ''Series'')
       library_id False s = (Inr library_items, s1) \<and>
     hit (imdb_lookup (build_lookups library_items)) (with_tt imdb_id) = None \<and>
     hit (imdb_lookup (build_lookups library_items)) (without_tt imdb_id) = None \<and>
     hit (path_imdb_lookup (build_lookups library_items)) (with_tt imdb_id) = None \<and>
     item_Id A = Some emby_id \<and> emby_id \<noteq> []"
  then show "fst (process_item e item library_id collection_name s)
           = Inr (Some (emby_id, ti_type item))"
    using assms by (intro process_item_tmdb[where imdb_id = imdb_id]) blast+
qed

text \<open>Claim C2 at the entry \<open>Dune\<close> (2021) that carries the TMDB id of another film: the
  library holds \<open>Dune\<close> (2021), which the title step would accept, and the item of that
  TMDB id, which is returned.\<close>

theorem C2_secondary_id_first_witness:
  "fst (search_movie_in_emby demo_env ''Dune'' (Some 2021) [(''tmdb'', IdStr ''335984'')]
          (Some ''lib1'') (cached_state ''Movie_lib1'' [dune_2021, blade_runner]))
     = Inr (Some ''e335'')
   \<and> fst (process_item demo_env dune_entry (Some ''lib1'') (Some ''Favorites'')
          (cached_state ''Movie_lib1'' [dune_2021, blade_runner]))
     = Inr (Some (''e335'', ''movie''))
   \<and> fuzzy_title_match ''Dune'' (Some 2021) [dune_2021, blade_runner] = Some dune_2021"
proof -
  let ?lib = "[dune_2021, blade_runner]"
  let ?s = "cached_state ''Movie_lib1'' ?lib"
  let ?pids = "[(''tmdb'', IdStr ''335984'')]"
  have a1: "blade_runner \<in> set ?lib" by simp
  have a3: "''335984'' \<noteq> []" by simp
  have a4: "\<forall>x\<in>set ?lib. tmdb_of x = ''335984'' \<longrightarrow> x = blade_runner"
    by (simp add: tmdb_of_dune_2021)
  note inst = C2_secondary_id_first[OF a1 tmdb_of_blade_runner a3 a4,
      of ?pids ?s demo_env "Some ''lib1''" ?s "''Dune''" "Some 2021" dune_entry None "''e335''"
         "Some ''Favorites''"]
  have lib: "get_emby_library_items demo_env ''Movie'' (Some ''lib1'') False ?s = (Inr ?lib, ?s)"
    using dune_cache[of "''Movie''" ?lib] by simp
  have m1: "get_id ?pids ''tmdb'' = Some (IdStr ''335984'')" by (simp add: get_id_def)
  have m2: "stored_mapping ?s ''movie'' (get_id ?pids ''trakt'') = None"
    by (simp add: stored_mapping_def when_truthy_def get_id_def)
  have m3: "when_truthy (get_id ?pids ''imdb'') (\<lambda>i. find_by_imdb i ?lib) = None"
    by (simp add: when_truthy_def get_id_def)
  have movie: "fst (search_movie_in_emby demo_env ''Dune'' (Some 2021) ?pids (Some ''lib1'') ?s)
      = Inr (item_Id blade_runner)"
    using inst m1 m2 m3 lib by simp
  have p1: "str_id (get_id (md_ids (media_of dune_entry)) ''tmdb'') = Some ''335984''"
    by (simp add: dune_entry_ids str_id_def when_truthy_def get_id_def show_int_335984 strip_def
        is_space_def)
  have p2: "imdb_of (md_ids (media_of dune_entry)) = Inr None"
    by (simp add: dune_entry_ids imdb_of_def get_id_def)
  have p3: "stored_emby_id ?s (if ti_type dune_entry = ''movie'' then ''movie'' else ''show'')
       (str_id (get_id (md_ids (media_of dune_entry)) ''trakt'')) = None"
    by (simp add: stored_emby_id_def get_emby_id_from_mapping_def cached_state_def empty_state_def
        split: option.splits)
  have p4: "get_emby_library_items demo_env
       (if ti_type dune_entry = ''movie'' then ''Movie'' else ''Series'') (Some ''lib1'') False ?s
       = (Inr ?lib, ?s)"
    using lib by (simp add: dune_entry_def)
  have p5: "hit table (with_tt None) = None" "hit table (without_tt None) = None" for table
    by (simp_all add: hit_def with_tt_def without_tt_def)
  have p6: "item_Id blade_runner = Some ''e335'' \<and> ''e335'' \<noteq> []"
    by (simp add: blade_runner_def)
  have "fst (process_item demo_env dune_entry (Some ''lib1'') (Some ''Favorites'') ?s)
      = Inr (Some (''e335'', ti_type dune_entry))"
    using inst p1 p2 p3 p4 p5 p6 by simp
  then have proc: "fst (process_item demo_env dune_entry (Some ''lib1'') (Some ''Favorites'') ?s)
      = Inr (Some (''e335'', ''movie''))"
    by (simp add: dune_entry_def)
  have "fuzzy_title_match ''Dune'' (Some 2021) ?lib = Some dune_2021"
    by (simp add: fuzzy_title_match_def normalize_dune year_too_far_def dune_2021_def)
  then show ?thesis using movie proc p6 by simp
qed

section \<open>The Mapping Store in the resolution of an entry\<close>

lemma stored_emby_id_hit:
  assumes "emby_id_mapping s (mapping_key item_type t) = Some m" and "map_emby_id m = Some emby_id"
    and "emby_id \<noteq> []" and "t \<noteq> []"
  shows "stored_emby_id s item_type (Some t) = Some emby_id"
  using assms by (simp add: stored_emby_id_def get_emby_id_from_mapping_def)

lemma process_item_fast_path:
  assumes tr: "str_id (get_id (md_ids (media_of item)) ''trakt'') = Some t"
    and st: "stored_emby_id s (if ti_type item = ''movie'' then ''movie'' else ''show'') (Some t)
              = Some emby_id"
    and im: "imdb_of (md_ids (media_of item)) = Inr imdb_id"
  shows "process_item e item library_id collection_name s = (Inr (Some (emby_id, ti_type item)), s)"
proof -
  let ?ids = "md_ids (media_of item)"
  have t: "truthy_id (get_id ?ids ''trakt'')" using tr by (rule str_id_Some_truthy)
  then have nonempty: "?ids \<noteq> []" by (rule truthy_id_get_nonempty)
  have usable: "\<not> (?ids = [] \<or> \<not> (truthy_id (get_id ?ids ''imdb'') \<or> truthy_id (get_id ?ids ''tmdb'')
                              \<or> truthy_id (get_id ?ids ''trakt'')))"
    using t nonempty by simp
  show ?thesis
    unfolding process_item_def Let_def
    by (simp only: usable if_False im tr st sum.case option.case)
qed

lemma stored_mapping_hit:
  assumes "get_id provider_ids ''trakt'' = Some t" and "truthy_id (Some t)"
    and "emby_id_mapping s (mapping_key item_type (py_str t)) = Some m"
    and "map_emby_id m = Some emby_id" and "emby_id \<noteq> []"
  shows "stored_mapping s item_type (get_id provider_ids ''trakt'') = Some emby_id"
  using assms by (simp add: stored_mapping_def when_truthy_def get_emby_id_from_mapping_def)

lemma search_movie_fast_path:
  assumes "provider_ids \<noteq> []"
    and "stored_mapping s ''movie'' (get_id provider_ids ''trakt'') = Some emby_id"
  shows "search_movie_in_emby e title year provider_ids library_id s = (Inr (Some emby_id), s)"
  unfolding search_movie_in_emby_def Let_def
  by (simp only: assms if_False option.case)

lemma search_tv_fast_path:
  assumes "provider_ids \<noteq> []"
    and "stored_mapping s ''show'' (get_id provider_ids ''trakt'') = Some emby_id"
  shows "search_tv_show_in_emby e title year provider_ids library_id s = (Inr (Some emby_id), s)"
  unfolding search_tv_show_in_emby_def Let_def
  by (simp only: assms if_False option.case)

lemma get_id_Some_nonempty: "get_id ids key = Some v \<Longrightarrow> ids \<noteq> []"
  by (auto simp: get_id_def)

lemma inception_ids:
  "md_ids (media_of inception_entry) = [(''trakt'', IdInt 16662), (''imdb'', IdStr ''tt1375666'')]"
  by (simp add: media_of_def inception_entry_def demo_media_def)

lemma show_int_16662: "show_int 16662 = ''16662''"
  by (simp add: show_int_def show_nat.simps digit_char_def)

lemma inception_trakt: "str_id (get_id (md_ids (media_of inception_entry)) ''trakt'') = Some ''16662''"
  by (simp add: inception_ids str_id_def when_truthy_def get_id_def show_int_16662 strip_def
      is_space_def)

lemma inception_imdb: "imdb_of (md_ids (media_of inception_entry)) = Inr (Some ''tt1375666'')"
  by (simp add: inception_ids imdb_of_def get_id_def strip_def is_space_def)

lemma mapped_state_key: "emby_id_mapping mapped_state ''movie_16662'' = Some stored_record"
  by (simp add: mapped_state_def empty_state_def)

lemma add_to_missing_items_mapping:
  "emby_id_mapping (snd (add_to_missing_items e item_data item_type cn lid reason s)) = emby_id_mapping s"
  by (simp add: add_to_missing_items_def datetime_now_def Let_def split: option.splits)

lemma get_emby_library_items_mapping:
  assumes "get_emby_library_items e kind lid force s = (r, s1)"
  shows "emby_id_mapping s1 = emby_id_mapping s \<and> clock s1 = clock s"
  using assms
  by (auto simp: get_emby_library_items_def http_def Let_def
      split: option.splits if_splits response.splits body.splits)

lemma store_if_trakt_mapping:
  "emby_id_mapping (store_if_trakt e trakt_id emby_id item_type title s) =
     (case trakt_id of
        None \<Rightarrow> emby_id_mapping s
      | Some t \<Rightarrow>
          if t = [] then emby_id_mapping s
          else (emby_id_mapping s)(mapping_key item_type t \<mapsto>
                 \<lparr>map_emby_id = emby_id, map_type = item_type, map_title = title,
                  map_last_updated = time_at e (clock s)\<rparr>))"
  by (simp add: store_if_trakt_def add_emby_id_mapping_def datetime_now_def split: option.splits)

lemma stored_emby_id_Some:
  assumes "stored_emby_id s item_type trakt_id = Some emby_id"
  shows "\<exists>t m. trakt_id = Some t \<and> t \<noteq> [] \<and> emby_id_mapping s (mapping_key item_type t) = Some m
           \<and> map_emby_id m = Some emby_id"
  using assms
  by (auto simp: stored_emby_id_def get_emby_id_from_mapping_def split: option.splits if_splits)

text \<open>The outcomes of \<open>process_item\<close>.\<close>

lemma process_item_outcomes:
  assumes "process_item e item library_id collection_name s = (res, s')"
  shows "(emby_id_mapping s' = emby_id_mapping s \<and> (\<forall>emby_id ty. res \<noteq> Inr (Some (emby_id, ty))))
    \<or> (\<exists>emby_id. res = Inr (Some (emby_id, ti_type item)) \<and> s' = s \<and>
          stored_emby_id s (entry_type item) (entry_trakt item) = Some emby_id)
    \<or> (\<exists>emby_id s1. res = Inr (Some (emby_id, ti_type item)) \<and>
          stored_emby_id s (entry_type item) (entry_trakt item) = None \<and>
          emby_id_mapping s1 = emby_id_mapping s \<and> clock s1 = clock s \<and>
          s' = store_if_trakt e (entry_trakt item) (Some emby_id) (entry_type item)
                 (entry_title item) s1)"
proof -
  let ?media = "media_of item"
  let ?ids = "md_ids ?media"
  show ?thesis
  proof (cases "?ids = [] \<or> \<not> (truthy_id (get_id ?ids ''imdb'') \<or> truthy_id (get_id ?ids ''tmdb'')
                              \<or> truthy_id (get_id ?ids ''trakt''))")
    case True
    then have "res = Inr None \<and> s' = snd (add_to_missing_items e ?media (ti_type item)
        collection_name library_id ''No usable IDs available'' s)"
      using assms unfolding process_item_def Let_def by (simp only: if_True prod.inject; simp)
    then show ?thesis by (simp add: add_to_missing_items_mapping)
  next
    case usable: False
    show ?thesis
    proof (cases "imdb_of ?ids")
      case (Inl err)
      then have "res = Inl err \<and> s' = s"
        using assms usable unfolding process_item_def Let_def
        by (simp only: if_False sum.case prod.inject; simp)
      then show ?thesis by simp
    next
      case (Inr imdb_id)
      show ?thesis
      proof (cases "stored_emby_id s (entry_type item) (entry_trakt item)")
        case (Some emby_id)
        then have "res = Inr (Some (emby_id, ti_type item)) \<and> s' = s"
          using assms usable Inr unfolding process_item_def Let_def entry_type_def entry_trakt_def
          by (simp only: if_False sum.case option.case prod.inject; simp)
        then show ?thesis using Some by simp
      next
        case None
        obtain r s1 where lib: "get_emby_library_items e
            (if ti_type item = ''movie'' then ''Movie'' else ''Series'') library_id False s = (r, s1)"
          by (cases "get_emby_library_items e
            (if ti_type item = ''movie'' then ''Movie'' else ''Series'') library_id False s")
        then have keep: "emby_id_mapping s1 = emby_id_mapping s \<and> clock s1 = clock s"
          by (rule get_emby_library_items_mapping)
        show ?thesis
        proof (cases r)
          case (Inl err)
          then have "res = Inl err \<and> s' = s1"
            using assms usable Inr None lib
            unfolding process_item_def Let_def entry_type_def entry_trakt_def
            by (simp only: if_False sum.case option.case prod.case prod.inject; simp)
          then show ?thesis using keep by simp
        next
          case lib_ok: (Inr library_items)
          let ?m = "match_library library_items (entry_title item) (md_year ?media) imdb_id
              (str_id (get_id ?ids ''tmdb'')) (str_id (get_id ?ids ''tvdb'')) (ti_type item)"
          let ?missing = "snd (add_to_missing_items e ?media (ti_type item) collection_name
              library_id ''No matching IDs found in Emby library'' s1)"
          have eq: "(res, s') =
              (case ?m of
                 Some matched_emby_id \<Rightarrow>
                   if matched_emby_id \<noteq> [] then
                     (Inr (Some (matched_emby_id, ti_type item)),
                      store_if_trakt e (entry_trakt item) (Some matched_emby_id) (entry_type item)
                        (entry_title item) s1)
                   else (Inr None, ?missing)
               | None \<Rightarrow> (Inr None, ?missing))"
            using assms usable Inr None lib lib_ok
            unfolding process_item_def Let_def entry_type_def entry_trakt_def entry_title_def
            by (simp only: if_False sum.case option.case prod.case)
          show ?thesis
          proof (cases "\<exists>mid. ?m = Some mid \<and> mid \<noteq> []")
            case True
            then obtain mid where "?m = Some mid" "mid \<noteq> []" by blast
            then have "res = Inr (Some (mid, ti_type item)) \<and>
                s' = store_if_trakt e (entry_trakt item) (Some mid) (entry_type item)
                       (entry_title item) s1"
              using eq by simp
            then show ?thesis using None keep by blast
          next
            case False
            then have "res = Inr None \<and> s' = ?missing"
              using eq by (cases ?m) auto
            then show ?thesis using keep by (simp add: add_to_missing_items_mapping)
          qed
        qed
      qed
    qed
  qed
qed


lemma primary_key_Some:
  "primary_key item = Some key \<longleftrightarrow>
     (\<exists>t. entry_trakt item = Some t \<and> t \<noteq> [] \<and> key = mapping_key (entry_type item) t)"
  by (auto simp: primary_key_def split: option.splits)

lemma primary_key_None:
  "primary_key item = None \<longleftrightarrow> (entry_trakt item = None \<or> entry_trakt item = Some [])"
  by (auto simp: primary_key_def split: option.splits)

lemma inception_fast_path:
  "process_item demo_env inception_entry (Some ''lib1'') (Some ''Favorites'') mapped_state
     = (Inr (Some (''e42'', ''movie'')), mapped_state)"
proof -
  have "stored_emby_id mapped_state (if ti_type inception_entry = ''movie'' then ''movie'' else ''show'')
      (Some ''16662'') = Some ''e42''"
    by (simp add: stored_emby_id_def get_emby_id_from_mapping_def mapping_key_def
        inception_entry_def mapped_state_key stored_record_def)
  then have "process_item demo_env inception_entry (Some ''lib1'') (Some ''Favorites'') mapped_state
     = (Inr (Some (''e42'', ti_type inception_entry)), mapped_state)"
    using inception_trakt inception_imdb by (intro process_item_fast_path)
  then show ?thesis by (simp add: inception_entry_def)
qed

text \<open>
  Claim C3: when the Mapping Store has a record, with an Emby id that is not empty,
  under the key of the entry's kind and Trakt id, resolution returns that Emby id and
  the state is the state before the call: no request is sent and the library cache is
  neither read nor filled. This holds for \<open>process_item\<close> (where reading the entry's IMDB id
  raises no error), for \<open>search_movie_in_emby\<close> and for \<open>search_tv_show_in_emby\<close>, whatever the
  environment and the library are.
\<close>

theorem C3_mapping_fast_path:
  assumes "map_emby_id m = Some emby_id" and "emby_id \<noteq> []"
  shows
   "(str_id (get_id (md_ids (media_of item)) ''trakt'') = Some t \<and> t \<noteq> [] \<and>
     imdb_of (md_ids (media_of item)) = Inr imdb_id \<and>
     emby_id_mapping s (mapping_key (if ti_type item = ''movie'' then ''movie'' else ''show'') t)
       = Some m
     \<longrightarrow> process_item e item library_id collection_name s
           = (Inr (Some (emby_id, ti_type item)), s))
  \<and> (get_id provider_ids ''trakt'' = Some v \<and> truthy_id (Some v) \<and>
     emby_id_mapping s (mapping_key ''movie'' (py_str v)) = Some m
     \<longrightarrow> search_movie_in_emby e title year provider_ids library_id s = (Inr (Some emby_id), s))
  \<and> (get_id provider_ids ''trakt'' = Some v \<and> truthy_id (Some v) \<and>
     emby_id_mapping s (mapping_key ''show'' (py_str v)) = Some m
     \<longrightarrow> search_tv_show_in_emby e title year provider_ids library_id s = (Inr (Some emby_id), s))"
proof (intro conjI impI)
  assume h: "str_id (get_id (md_ids (media_of item)) ''trakt'') = Some t \<and> t \<noteq> [] \<and>
     imdb_of (md_ids (media_of item)) = Inr imdb_id \<and>
     emby_id_mapping s (mapping_key (if ti_type item = ''movie'' then ''movie'' else ''show'') t)
       = Some m"
  then have "stored_emby_id s (if ti_type item = ''movie'' then ''movie'' else ''show'') (Some t)
      = Some emby_id"
    using assms by (intro stored_emby_id_hit[where m = m]) blast+
  then show "process_item e item library_id collection_name s
           = (Inr (Some (emby_id, ti_type item)), s)"
    using h by (intro process_item_fast_path[where t = t and imdb_id = imdb_id]) blast+
next
  assume h: "get_id provider_ids ''trakt'' = Some v \<and> truthy_id (Some v) \<and>
     emby_id_mapping s (mapping_key ''movie'' (py_str v)) = Some m"
  then have "stored_mapping s ''movie'' (get_id provider_ids ''trakt'') = Some emby_id"
    using assms by (intro stored_mapping_hit[where m = m and t = v]) blast+
  moreover have "provider_ids \<noteq> []" using h by (auto simp: get_id_def)
  ultimately show "search_movie_in_emby e title year provider_ids library_id s
      = (Inr (Some emby_id), s)"
    by (intro search_movie_fast_path)
next
  assume h: "get_id provider_ids ''trakt'' = Some v \<and> truthy_id (Some v) \<and>
     emby_id_mapping s (mapping_key ''show'' (py_str v)) = Some m"
  then have "stored_mapping s ''show'' (get_id provider_ids ''trakt'') = Some emby_id"
    using assms by (intro stored_mapping_hit[where m = m and t = v]) blast+
  moreover have "provider_ids \<noteq> []" using h by (auto simp: get_id_def)
  ultimately show "search_tv_show_in_emby e title year provider_ids library_id s
      = (Inr (Some emby_id), s)"
    by (intro search_tv_fast_path)
qed

text \<open>Claim C3 at the entry \<open>Inception\<close> with a stored mapping: the server of the example
  answers every request with status 404, and none is sent.\<close>

theorem C3_mapping_fast_path_witness:
  "process_item demo_env inception_entry (Some ''lib1'') (Some ''Favorites'') mapped_state
     = (Inr (Some (''e42'', ''movie'')), mapped_state)
   \<and> search_movie_in_emby demo_env ''Inception'' (Some 2010) (md_ids demo_media) (Some ''lib1'')
       mapped_state = (Inr (Some ''e42''), mapped_state)
   \<and> requests_sent mapped_state = [] \<and> library_cache mapped_state = Map.empty"
proof -
  have a1: "map_emby_id stored_record = Some ''e42''" by (simp add: stored_record_def)
  have a2: "''e42'' \<noteq> []" by simp
  note inst = C3_mapping_fast_path[OF a1 a2, of inception_entry "''16662''" "Some ''tt1375666''"
      mapped_state demo_env "Some ''lib1''" "Some ''Favorites''" "md_ids demo_media" "IdInt 16662"
      "''Inception''" "Some 2010"]
  have k1: "mapping_key (if ti_type inception_entry = ''movie'' then ''movie'' else ''show'') ''16662''
      = ''movie_16662''"
    by (simp add: mapping_key_def inception_entry_def)
  have k2: "mapping_key ''movie'' (py_str (IdInt 16662)) = ''movie_16662''"
    by (simp add: mapping_key_def show_int_16662)
  have g: "get_id (md_ids demo_media) ''trakt'' = Some (IdInt 16662)"
    by (simp add: demo_media_def get_id_def)
  have "process_item demo_env inception_entry (Some ''lib1'') (Some ''Favorites'') mapped_state
     = (Inr (Some (''e42'', ti_type inception_entry)), mapped_state)"
    using inst inception_trakt inception_imdb mapped_state_key k1 by simp
  then have p: "process_item demo_env inception_entry (Some ''lib1'') (Some ''Favorites'') mapped_state
     = (Inr (Some (''e42'', ''movie'')), mapped_state)"
    by (simp add: inception_entry_def)
  have m: "search_movie_in_emby demo_env ''Inception'' (Some 2010) (md_ids demo_media) (Some ''lib1'')
       mapped_state = (Inr (Some ''e42''), mapped_state)"
    using inst g k2 mapped_state_key by simp
  show ?thesis using p m by (simp add: mapped_state_def empty_state_def)
qed

text \<open>
  Claim C4 says that on every successful match, the fast path included, a record is
  written to the Mapping Store before returning. On the fast path \<open>process_item\<close> returns
  without a write: the state after the call is the state before, and the stored record
  keeps its old title and time stamp.
\<close>

theorem C4_fast_path_counterexample:
  "fst (process_item demo_env inception_entry (Some ''lib1'') (Some ''Favorites'') mapped_state)
     = Inr (Some (''e42'', ''movie''))
   \<and> primary_key inception_entry = Some ''movie_16662''
   \<and> snd (process_item demo_env inception_entry (Some ''lib1'') (Some ''Favorites'') mapped_state)
     = mapped_state
   \<and> emby_id_mapping mapped_state ''movie_16662'' = Some stored_record
   \<and> stored_record \<noteq> \<lparr>map_emby_id = Some ''e42'', map_type = ''movie'', map_title = ''Inception'',
                         map_last_updated = time_at demo_env (clock mapped_state)\<rparr>"
proof -
  have "primary_key inception_entry = Some ''movie_16662''"
    using inception_trakt
    by (simp add: primary_key_def entry_trakt_def entry_type_def mapping_key_def inception_entry_def)
  moreover have "stored_record \<noteq> \<lparr>map_emby_id = Some ''e42'', map_type = ''movie'',
      map_title = ''Inception'', map_last_updated = time_at demo_env (clock mapped_state)\<rparr>"
    by (simp add: stored_record_def)
  ultimately show ?thesis
    by (simp add: inception_fast_path mapped_state_key)
qed

text \<open>
  Claim C4, amended: \<open>process_item\<close> changes the Mapping Store only on a successful match
  by the steps 1 to 5 of an entry that has a usable Trakt id, and then it writes, under
  the key of the entry's kind and Trakt id, a record with the Emby id returned, the
  kind, the title and the time of the call. On the fast path nothing is written: the
  record under that key, whose Emby id is returned, stays as it is. An entry without a
  usable Trakt id and an entry that is not resolved leave the store unchanged.
\<close>

theorem C4_mapping_writes:
  assumes "process_item e item library_id collection_name s = (res, s')"
  shows
   "(primary_key item = None \<longrightarrow> emby_id_mapping s' = emby_id_mapping s)
  \<and> ((\<forall>emby_id ty. res \<noteq> Inr (Some (emby_id, ty))) \<longrightarrow> emby_id_mapping s' = emby_id_mapping s)
  \<and> (primary_key item = Some key \<and> res = Inr (Some (emby_id, ty)) \<longrightarrow>
       (if stored_emby_id s (entry_type item) (entry_trakt item) = None
        then emby_id_mapping s' =
               (emby_id_mapping s)(key \<mapsto>
                  \<lparr>map_emby_id = Some emby_id, map_type = entry_type item,
                   map_title = entry_title item, map_last_updated = time_at e (clock s)\<rparr>)
        else s' = s \<and> (\<exists>m. emby_id_mapping s key = Some m \<and> map_emby_id m = Some emby_id)))"
proof -
  let ?stored = "stored_emby_id s (entry_type item) (entry_trakt item)"
  consider
    (none) "emby_id_mapping s' = emby_id_mapping s" "\<forall>emby_id ty. res \<noteq> Inr (Some (emby_id, ty))"
  | (fast) eid where "res = Inr (Some (eid, ti_type item))" "s' = s" "?stored = Some eid"
  | (found) eid s1 where "res = Inr (Some (eid, ti_type item))" "?stored = None"
      "emby_id_mapping s1 = emby_id_mapping s" "clock s1 = clock s"
      "s' = store_if_trakt e (entry_trakt item) (Some eid) (entry_type item) (entry_title item) s1"
    using process_item_outcomes[OF assms] by blast
  then show ?thesis
  proof cases
    case none
    then show ?thesis by simp
  next
    case fast
    obtain t m where "entry_trakt item = Some t" "t \<noteq> []"
      "emby_id_mapping s (mapping_key (entry_type item) t) = Some m" "map_emby_id m = Some eid"
      using stored_emby_id_Some[OF fast(3)] by blast
    then show ?thesis using fast by (auto simp: primary_key_Some)
  next
    case found
    have m: "emby_id_mapping s' =
        (case entry_trakt item of
           None \<Rightarrow> emby_id_mapping s
         | Some t \<Rightarrow>
             if t = [] then emby_id_mapping s
             else (emby_id_mapping s)(mapping_key (entry_type item) t \<mapsto>
                    \<lparr>map_emby_id = Some eid, map_type = entry_type item,
                     map_title = entry_title item, map_last_updated = time_at e (clock s)\<rparr>))"
      unfolding found(5) store_if_trakt_mapping found(3) found(4) by (rule refl)
    have c1: "primary_key item = None \<longrightarrow> emby_id_mapping s' = emby_id_mapping s"
      using m by (auto simp: primary_key_None)
    have c2: "(\<forall>emby_id ty. res \<noteq> Inr (Some (emby_id, ty))) \<longrightarrow> emby_id_mapping s' = emby_id_mapping s"
      using found(1) by simp
    have c3: "primary_key item = Some key \<and> res = Inr (Some (emby_id, ty)) \<longrightarrow>
       emby_id_mapping s' =
               (emby_id_mapping s)(key \<mapsto>
                  \<lparr>map_emby_id = Some emby_id, map_type = entry_type item,
                   map_title = entry_title item, map_last_updated = time_at e (clock s)\<rparr>)"
      using m found(1) by (auto simp: primary_key_Some)
    show ?thesis using c1 c2 c3 found(2) by simp
  qed
qed

text \<open>Claim C4 at the entry \<open>Dune\<close> with the Trakt id 99, resolved by its TMDB id: the store,
  empty before, holds the record under \<open>movie_99\<close> afterwards.\<close>

theorem C4_mapping_writes_witness:
  "fst (process_item demo_env dune_entry (Some ''lib1'') (Some ''Favorites'')
          (cached_state ''Movie_lib1'' [dune_2021, blade_runner])) = Inr (Some (''e335'', ''movie''))
   \<and> emby_id_mapping (snd (process_item demo_env dune_entry (Some ''lib1'') (Some ''Favorites'')
          (cached_state ''Movie_lib1'' [dune_2021, blade_runner])))
     = [''movie_99'' \<mapsto> \<lparr>map_emby_id = Some ''e335'', map_type = ''movie'', map_title = ''Dune'',
                           map_last_updated = ''2024-01-01T00:00:00''\<rparr>]"
proof -
  let ?lib = "[dune_2021, blade_runner]"
  let ?s = "cached_state ''Movie_lib1'' ?lib"
  let ?run = "process_item demo_env dune_entry (Some ''lib1'') (Some ''Favorites'') ?s"
  have a1: "blade_runner \<in> set ?lib" by simp
  have a3: "''335984'' \<noteq> []" by simp
  have a4: "\<forall>x\<in>set ?lib. tmdb_of x = ''335984'' \<longrightarrow> x = blade_runner"
    by (simp add: tmdb_of_dune_2021)
  have p1: "str_id (get_id (md_ids (media_of dune_entry)) ''tmdb'') = Some ''335984''"
    by (simp add: dune_entry_ids str_id_def when_truthy_def get_id_def show_int_335984 strip_def
        is_space_def)
  have p2: "imdb_of (md_ids (media_of dune_entry)) = Inr None"
    by (simp add: dune_entry_ids imdb_of_def get_id_def)
  have tr: "entry_trakt dune_entry = Some ''99''"
    by (simp add: entry_trakt_def dune_entry_ids str_id_def when_truthy_def get_id_def show_int_def
        show_nat.simps digit_char_def strip_def is_space_def)
  have p3: "stored_emby_id ?s (if ti_type dune_entry = ''movie'' then ''movie'' else ''show'')
       (str_id (get_id (md_ids (media_of dune_entry)) ''trakt'')) = None"
    by (simp add: stored_emby_id_def get_emby_id_from_mapping_def cached_state_def empty_state_def
        split: option.splits)
  have p4: "get_emby_library_items demo_env
       (if ti_type dune_entry = ''movie'' then ''Movie'' else ''Series'') (Some ''lib1'') False ?s
       = (Inr ?lib, ?s)"
    using dune_cache[of "''Movie''" ?lib] by (simp add: dune_entry_def)
  have p5: "hit table (with_tt None) = None" "hit table (without_tt None) = None" for table
    by (simp_all add: hit_def with_tt_def without_tt_def)
  have p6: "item_Id blade_runner = Some ''e335''" "''e335'' \<noteq> []"
    by (simp_all add: blade_runner_def)
  have "fst ?run = Inr (Some (''e335'', ti_type dune_entry))"
    using a1 tmdb_of_blade_runner a3 a4 p1 p2 p3 p4 p5(1) p5(2) p5(1) p6
    by (rule process_item_tmdb)
  then have res: "fst ?run = Inr (Some (''e335'', ''movie''))"
    by (simp add: dune_entry_def)
  have run: "?run = (Inr (Some (''e335'', ''movie'')), snd ?run)"
    using res by (simp add: prod_eq_iff)
  note inst = C4_mapping_writes[OF run, of "''movie_99''" "''e335''" "''movie''"]
  have key: "primary_key dune_entry = Some ''movie_99''"
    using tr by (simp add: primary_key_def entry_type_def mapping_key_def dune_entry_def)
  have st: "stored_emby_id ?s (entry_type dune_entry) (entry_trakt dune_entry) = None"
    using p3 by (simp add: entry_type_def entry_trakt_def)
  have "emby_id_mapping (snd ?run) =
      (emby_id_mapping ?s)(''movie_99'' \<mapsto>
         \<lparr>map_emby_id = Some ''e335'', map_type = entry_type dune_entry,
          map_title = entry_title dune_entry, map_last_updated = time_at demo_env (clock ?s)\<rparr>)"
    using inst key st by simp
  then have "emby_id_mapping (snd ?run) =
      [''movie_99'' \<mapsto> \<lparr>map_emby_id = Some ''e335'', map_type = ''movie'', map_title = ''Dune'',
                           map_last_updated = ''2024-01-01T00:00:00''\<rparr>]"
    by (simp add: cached_state_def empty_state_def entry_type_def entry_title_def media_of_def
        dune_entry_def demo_env_def show_nat.simps digit_char_def)
  then show ?thesis using res by simp
qed

section \<open>Recheck with a manual id, and the empty collection\<close>

text \<open>
  Claim C9: for an Unresolved record at a valid index, \<open>recheck_missing_item\<close> with a manual
  Emby id whose lookup \<open>GET /Items/{id}\<close> is answered with a status other than 200
  returns failure, and the state afterwards differs from the state before only by the
  request sent: the record is still in the Unresolved registry, with its reason and
  every other field as before.
\<close>

theorem C9_recheck_invalid_manual_id:
  assumes "0 \<le> item_index" and "item_index < int (length (missing_items s))"
    and "manual_emby_id \<noteq> []" and "EMBY_SERVER e = Some server"
    and "respond e (requests_sent s) (GetItem manual_emby_id) = Response status b"
    and "status \<noteq> 200"
  shows "recheck_missing_item e item_index (Some manual_emby_id) s =
           (Inr False, s\<lparr>requests_sent := requests_sent s @ [GetItem manual_emby_id]\<rparr>)
         \<and> missing_items (snd (recheck_missing_item e item_index (Some manual_emby_id) s))
             = missing_items s"
  using assms by (simp add: recheck_missing_item_def http_def Let_def)

text \<open>Claim C9 at a registry of two unresolved records and a server that answers the
  lookup with status 404.\<close>

theorem C9_recheck_invalid_manual_id_witness:
  "recheck_missing_item failing_lookup_env 1 (Some ''no-such-item'') two_records =
     (Inr False, two_records\<lparr>requests_sent := [GetItem ''no-such-item'']\<rparr>)
   \<and> map mi_reason (missing_items (snd (recheck_missing_item failing_lookup_env 1
          (Some ''no-such-item'') two_records)))
     = [''No matching IDs found in Emby library'', ''No matching IDs found in Emby library'']"
proof -
  have h1: "(0::int) \<le> 1" by simp
  have h2: "(1::int) < int (length (missing_items two_records))"
    by (simp add: two_records_def empty_state_def)
  have h3: "''no-such-item'' \<noteq> []" by simp
  have h4: "EMBY_SERVER failing_lookup_env = Some ''http://emby:8096''"
    by (simp add: failing_lookup_env_def demo_env_def)
  have h5: "respond failing_lookup_env (requests_sent two_records) (GetItem ''no-such-item'')
      = Response 404 NotJson"
    by (simp add: failing_lookup_env_def)
  have h6: "(404::int) \<noteq> 200" by simp
  show ?thesis
    using C9_recheck_invalid_manual_id[OF h1 h2 h3 h4 h5 h6]
    by (simp add: two_records_def empty_state_def demo_record_def)
qed

lemma existing_collection_reused:
  "fst (create_emby_collection_with_movies existing_collection_env ''favorites'' [''e42''] empty_state)
     = Inr (Some ''c1'')"
  by (simp add: create_emby_collection_with_movies_def find_collection_by_name_def
      existing_collection_env_def demo_env_def http_def lower_def lower_char_def lower_table_def)

text \<open>
  Claim C10: with an empty list of Emby ids, \<open>create_emby_collection_with_movies\<close> returns
  \<open>None\<close> and the state is the state before the call, for every collection name and every
  server: no search for the collection and no creation or membership request is sent.
  \<open>create_collection_legacy_format\<close> has the same guard.
\<close>

theorem C10_empty_membership:
  "create_emby_collection_with_movies e collection_name [] s = (Inr None, s)
   \<and> create_collection_legacy_format e collection_name [] s = (Inr None, s)"
  by (simp add: create_emby_collection_with_movies_def create_collection_legacy_format_def)

text \<open>Claim C10 at a server on which the collection exists: with one id the existing
  collection is found and returned, with none nothing is asked.\<close>

theorem C10_empty_membership_witness:
  "create_emby_collection_with_movies existing_collection_env ''favorites'' [] empty_state
     = (Inr None, empty_state)
   \<and> fst (create_emby_collection_with_movies existing_collection_env ''favorites'' [''e42'']
            empty_state) = Inr (Some ''c1'')"
  using C10_empty_membership[of existing_collection_env "''favorites''" empty_state]
    existing_collection_reused
  by simp

end

